theory Spec2Isabelle
  imports Complex_Main
begin

section \<open>JavaScript values\<close>

text \<open>
  The values the asset operations manager handles are JSON-like: the caller's content,
  the payloads of the node, the objects the manager returns. Numbers are the integral
  ones; strings are lists of characters. The members of an object are kept in insertion
  order, one entry per key.
\<close>

datatype json =
    JUndefined
  | JNull
  | JBool bool
  | JNum int
  | JStr string
  | JArr "json list"
  | JObj "(string \<times> json) list"

text \<open>A thrown value: \<open>Error(message)\<close> or the engine's own \<open>TypeError\<close>.\<close>

datatype exn = Error string | TypeError string

fun message :: "exn \<Rightarrow> string" where
  "message (Error m) = m"
| "message (TypeError m) = m"

text \<open>Truthiness, as \<open>!x\<close>, \<open>x && y\<close> and \<open>if (x)\<close> read it.\<close>

fun truthy :: "json \<Rightarrow> bool" where
  "truthy JUndefined = False"
| "truthy JNull = False"
| "truthy (JBool b) = b"
| "truthy (JNum n) = (n \<noteq> 0)"
| "truthy (JStr s) = (s \<noteq> [])"
| "truthy (JArr xs) = True"
| "truthy (JObj kvs) = True"

text \<open>
  Reading a named member \<open>v.k\<close>: a \<open>TypeError\<close> on \<open>undefined\<close> and
  \<open>null\<close>, the member or \<open>undefined\<close> on an object, \<open>undefined\<close> on
  every other value (the keys read here are no built-in properties of primitives or arrays).
\<close>

fun member :: "json \<Rightarrow> string \<Rightarrow> exn + json" where
  "member JUndefined k = Inl (TypeError (''Cannot read properties of undefined (reading '' @ k @ '')''))"
| "member JNull k = Inl (TypeError (''Cannot read properties of null (reading '' @ k @ '')''))"
| "member (JObj kvs) k = Inr (case map_of kvs k of None \<Rightarrow> JUndefined | Some v \<Rightarrow> v)"
| "member v k = Inr JUndefined"

text \<open>Optional chaining \<open>v?.k\<close>.\<close>

fun optMember :: "json \<Rightarrow> string \<Rightarrow> json" where
  "optMember (JObj kvs) k = (case map_of kvs k of None \<Rightarrow> JUndefined | Some v \<Rightarrow> v)"
| "optMember v k = JUndefined"

text \<open>\<open>v?.length\<close>, and \<open>v.length\<close> on a value that is not \<open>null\<close>: arrays and strings have a length of their own.\<close>

fun optLength :: "json \<Rightarrow> json" where
  "optLength (JArr xs) = JNum (int (length xs))"
| "optLength (JStr s) = JNum (int (length s))"
| "optLength (JObj kvs) = (case map_of kvs ''length'' of None \<Rightarrow> JUndefined | Some v \<Rightarrow> v)"
| "optLength v = JUndefined"

text \<open>Assigning a member \<open>o.k = v\<close> of an object: in place when the key exists, appended otherwise.\<close>

fun setMember :: "(string \<times> json) list \<Rightarrow> string \<Rightarrow> json \<Rightarrow> (string \<times> json) list" where
  "setMember [] k v = [(k, v)]"
| "setMember ((k', v') # kvs) k v = (if k' = k then (k, v) # kvs else (k', v') # setMember kvs k v)"

subsection \<open>Strings\<close>

definition startsWith :: "string \<Rightarrow> string \<Rightarrow> bool" where
  "startsWith s p = (take (length p) s = p)"

fun stringIncludes :: "string \<Rightarrow> string \<Rightarrow> bool" where
  "stringIncludes [] p = (p = [])"
| "stringIncludes (c # cs) p = (startsWith (c # cs) p \<or> stringIncludes cs p)"

text \<open>
  The regular expression \<open>/"(.*?)"/\<close>: the first double quote that is closed on its own
  line, and the characters between it and the next double quote (capture group 1).
  \<open>quotedBody\<close> reads on after an opening quote; a line terminator ends the attempt.
\<close>

definition lineTerminator :: "char \<Rightarrow> bool" where
  "lineTerminator c = (c = CHR 0x0A \<or> c = CHR 0x0D)"

fun quotedBody :: "string \<Rightarrow> string option" where
  "quotedBody [] = None"
| "quotedBody (c # cs) =
     (if c = CHR 0x22 then Some []
      else if lineTerminator c then None
      else map_option ((#) c) (quotedBody cs))"

fun matchQuoted :: "string \<Rightarrow> string option" where
  "matchQuoted [] = None"
| "matchQuoted (c # cs) =
     (if c = CHR 0x22
      then (case quotedBody cs of Some b \<Rightarrow> Some b | None \<Rightarrow> matchQuoted cs)
      else matchQuoted cs)"

text \<open>Decimal digits of a number, for \<open>String(n)\<close>.\<close>

fun digits :: "nat \<Rightarrow> string" where
  "digits n =
     (if n < 10 then [''0123456789'' ! n]
      else digits (n div 10) @ [''0123456789'' ! (n mod 10)])"

fun joinWith :: "string \<Rightarrow> string list \<Rightarrow> string" where
  "joinWith sep [] = []"
| "joinWith sep [x] = x"
| "joinWith sep (x # y # ys) = x @ sep @ joinWith sep (y # ys)"

text \<open>
  \<open>String(v)\<close> as \<open>Array.prototype.join\<close> applies it to an element:
  \<open>null\<close> and \<open>undefined\<close> give the empty string, a nested array is joined
  with commas.
\<close>

fun toStringInJoin :: "json \<Rightarrow> string" where
  "toStringInJoin JUndefined = []"
| "toStringInJoin JNull = []"
| "toStringInJoin (JBool b) = (if b then ''true'' else ''false'')"
| "toStringInJoin (JNum n) = (if n < 0 then CHR ''-'' # digits (nat (- n)) else digits (nat n))"
| "toStringInJoin (JStr s) = s"
| "toStringInJoin (JArr xs) = joinWith '','' (map toStringInJoin xs)"
| "toStringInJoin (JObj kvs) = ''[object Object]''"

text \<open>\<open>v.join(sep)\<close>: only an array has the method.\<close>

fun joinOf :: "json \<Rightarrow> string \<Rightarrow> exn + string" where
  "joinOf (JArr xs) sep = Inr (joinWith sep (map toStringInJoin xs))"
| "joinOf JUndefined sep = Inl (TypeError ''Cannot read properties of undefined (reading join)'')"
| "joinOf JNull sep = Inl (TypeError ''Cannot read properties of null (reading join)'')"
| "joinOf v sep = Inl (TypeError ''join is not a function'')"

text \<open>
  \<open>element.includes(p)\<close> inside the filter callback: the substring test on a string,
  the membership test on an array, a \<open>TypeError\<close> on anything else.
\<close>

fun elementIncludes :: "json \<Rightarrow> string \<Rightarrow> exn + bool" where
  "elementIncludes (JStr s) p = Inr (stringIncludes s p)"
| "elementIncludes (JArr xs) p = Inr (JStr p \<in> set xs)"
| "elementIncludes JUndefined p = Inl (TypeError ''Cannot read properties of undefined (reading includes)'')"
| "elementIncludes JNull p = Inl (TypeError ''Cannot read properties of null (reading includes)'')"
| "elementIncludes v p = Inl (TypeError ''includes is not a function'')"

fun filterIncludes :: "json list \<Rightarrow> string \<Rightarrow> exn + json list" where
  "filterIncludes [] p = Inr []"
| "filterIncludes (x # xs) p =
     (case elementIncludes x p of
        Inl e \<Rightarrow> Inl e
      | Inr b \<Rightarrow> (case filterIncludes xs p of
                    Inl e \<Rightarrow> Inl e
                  | Inr ys \<Rightarrow> Inr (if b then x # ys else ys)))"

text \<open>\<open>v.filter((element) => element.includes(p))[0]\<close>.\<close>

fun firstIncluding :: "json \<Rightarrow> string \<Rightarrow> exn + json" where
  "firstIncluding (JArr xs) p =
     (case filterIncludes xs p of
        Inl e \<Rightarrow> Inl e
      | Inr ys \<Rightarrow> Inr (case ys of [] \<Rightarrow> JUndefined | y # _ \<Rightarrow> y))"
| "firstIncluding JUndefined p = Inl (TypeError ''Cannot read properties of undefined (reading filter)'')"
| "firstIncluding JNull p = Inl (TypeError ''Cannot read properties of null (reading filter)'')"
| "firstIncluding v p = Inl (TypeError ''filter is not a function'')"

text \<open>\<open>v.match(/"(.*?)"/)[1]\<close> on a truthy value: only a string has the method, and no match is \<open>null\<close>.\<close>

fun matchGroup1 :: "json \<Rightarrow> exn + string" where
  "matchGroup1 (JStr s) =
     (case matchQuoted s of
        None \<Rightarrow> Inl (TypeError ''Cannot read properties of null (reading 1)'')
      | Some b \<Rightarrow> Inr b)"
| "matchGroup1 v = Inl (TypeError ''match is not a function'')"

subsection \<open>Numbers\<close>

text \<open>
  The epoch arithmetic runs on JavaScript numbers. On integers below \<open>2^53\<close> the
  quotient's floor is the integer floor, and a division by zero gives an infinity or
  \<open>NaN\<close> instead of failing.
\<close>

datatype jsnum = Num int | PosInfinity | NegInfinity | NaN

definition floorDiv :: "int \<Rightarrow> int \<Rightarrow> jsnum" where
  "floorDiv a b =
     (if b = 0 then (if a = 0 then NaN else if 0 < a then PosInfinity else NegInfinity)
      else Num (a div b))"

fun minus :: "int \<Rightarrow> jsnum \<Rightarrow> jsnum" where
  "minus a (Num b) = Num (a - b)"
| "minus a PosInfinity = NegInfinity"
| "minus a NegInfinity = PosInfinity"
| "minus a NaN = NaN"

section \<open>Data of the asset operations manager\<close>

text \<open>The network descriptor; the manager reads its name only.\<close>

record blockchain =
  name :: string

text \<open>What polling an operation of the node resolves to.\<close>

record operationResult =
  status :: string
  data :: json

text \<open>The on-chain agreement record, as far as the bid estimation reads it.\<close>

record agreementData =
  startTime :: int
  epochsNumber :: int
  epochLength :: int
  tokenAmount :: int
  updateTokenAmount :: "int option"

text \<open>The parts of a UAL the manager uses.\<close>

record resolvedUAL =
  contract :: string
  tokenId :: int

text \<open>The enumerations \<open>OPERATIONS\<close> and \<open>STORE_TYPES\<close> of the constants module.\<close>

datatype operation = LOCAL_STORE | PUBLISH | GET | UPDATE | QUERY

datatype storeType = TRIPLE | PENDING

text \<open>An entry of the array handed to the node's local store.\<close>

record storedAssertion =
  blockchain :: string
  contract :: string
  tokenId :: int
  assertionId :: string
  assertion :: "string list"
  storeType :: storeType

text \<open>The request object of the on-chain \<open>createAsset\<close>.\<close>

record assetRequest =
  publicAssertionId :: string
  assertionSize :: int
  triplesNumber :: int
  chunksNumber :: int
  epochsNum :: int
  tokenAmount :: int
  scoreFunctionId :: int
  immutable_ :: bool

text \<open>
  The arguments the input service extracts from the caller's options: those every
  operation shares, those of update, of create and of get.
\<close>

record commonArguments =
  blockchain :: blockchain
  endpoint :: string
  port :: int
  maxNumberOfRetries :: int
  frequency :: rat
  authToken :: string
  hashFunctionId :: int

record updateArguments = commonArguments +
  scoreFunctionId :: "int option"
  tokenAmount :: "int option"

record createArguments = updateArguments +
  epochsNum :: int
  immutable :: bool

record getArguments = commonArguments +
  state :: string
  contentType :: string
  validate :: bool
  outputFormat :: string

text \<open>The object handed to the step hook: a status and the data \<open>{operationId, operationResult}\<close>.\<close>

datatype hookEvent = HookEvent string string operationResult

section \<open>Effects\<close>

text \<open>
  Every awaited call on a collaborator, the sleep and the step hook are events. An event
  records the call's arguments and what the call resolved to (\<open>Inl\<close>: it threw or
  rejected). A run of an operation yields the events in the order they happened.
\<close>

datatype event =
    EvGetContractAddress string blockchain "exn + string"
  | EvCreateAsset assetRequest blockchain "exn + int"
  | EvUpdateAsset int string int int int int blockchain "exn + unit"
  | EvHasPendingUpdate int blockchain "exn + bool"
  | EvGetUnfinalizedState int blockchain "exn + string"
  | EvGetLatestAssertionId int blockchain "exn + string"
  | EvGetAssertionIdByIndex int int blockchain "exn + string"
  | EvGetAssertionSize string blockchain "exn + int"
  | EvGetAgreementData string blockchain "exn + agreementData"
  | EvGetBlockchainTimestamp blockchain "exn + int"
  | EvExtendAssetStoringPeriod int int int blockchain "exn + unit"
  | EvAddTokens int int blockchain "exn + unit"
  | EvAddUpdateTokens int int blockchain "exn + unit"
  | EvGetBidSuggestion string int string string jsnum int string string int "exn + int"
  | EvLocalStore string int string "storedAssertion list" "exn + string"
  | EvGetOperationResult string int string operation int rat string "exn + operationResult"
  | EvPublish string int string string "string list" string string int int "exn + string"
  | EvUpdate string int string string "string list" string string int int "exn + string"
  | EvGet string int string string string int "exn + string"
  | EvQuery string int string string string string "exn + string"
  | EvSleep rat
  | EvAfterHook hookEvent "exn + unit"

type_synonym trace = "event list"

text \<open>
  A step takes the events so far and returns its outcome with the events extended.
  \<open>andThen\<close> is the sequencing of two awaited steps: an exception ends the run.
\<close>

type_synonym 'a io = "trace \<Rightarrow> (exn + 'a) \<times> trace"

definition ret :: "'a \<Rightarrow> 'a io" where
  "ret x tr = (Inr x, tr)"

definition pure :: "exn + 'a \<Rightarrow> 'a io" where
  "pure r tr = (r, tr)"

definition andThen :: "'a io \<Rightarrow> ('a \<Rightarrow> 'b io) \<Rightarrow> 'b io" where
  "andThen m f tr = (case m tr of (Inl e, tr') \<Rightarrow> (Inl e, tr') | (Inr x, tr') \<Rightarrow> f x tr')"

text \<open>
  An awaited call on a collaborator: the collaborator answers knowing everything that
  happened before, and the call with its answer is appended to the events.
\<close>

definition await :: "(trace \<Rightarrow> exn + 'a) \<Rightarrow> (exn + 'a \<Rightarrow> event) \<Rightarrow> 'a io" where
  "await f ev tr = (f tr, tr @ [ev (f tr)])"

section \<open>Collaborators\<close>

text \<open>
  The services handed to the constructor and the modules the file requires are not part
  of the file: they are parameters. A function of the blockchain service or of the node
  API service sees the events so far; the validation service, the input service and the
  library functions are functions of their arguments that may throw.
\<close>

record blockchainService =
  getContractAddress :: "trace \<Rightarrow> string \<Rightarrow> blockchain \<Rightarrow> exn + string"
  createAsset :: "trace \<Rightarrow> assetRequest \<Rightarrow> blockchain \<Rightarrow> exn + int"
  updateAsset :: "trace \<Rightarrow> int \<Rightarrow> string \<Rightarrow> int \<Rightarrow> int \<Rightarrow> int \<Rightarrow> int \<Rightarrow> blockchain \<Rightarrow> exn + unit"
  hasPendingUpdate :: "trace \<Rightarrow> int \<Rightarrow> blockchain \<Rightarrow> exn + bool"
  getUnfinalizedState :: "trace \<Rightarrow> int \<Rightarrow> blockchain \<Rightarrow> exn + string"
  getLatestAssertionId :: "trace \<Rightarrow> int \<Rightarrow> blockchain \<Rightarrow> exn + string"
  getAssertionIdByIndex :: "trace \<Rightarrow> int \<Rightarrow> int \<Rightarrow> blockchain \<Rightarrow> exn + string"
  getAssertionSize :: "trace \<Rightarrow> string \<Rightarrow> blockchain \<Rightarrow> exn + int"
  getAgreementData :: "trace \<Rightarrow> string \<Rightarrow> blockchain \<Rightarrow> exn + agreementData"
  getBlockchainTimestamp :: "trace \<Rightarrow> blockchain \<Rightarrow> exn + int"
  extendAssetStoringPeriod :: "trace \<Rightarrow> int \<Rightarrow> int \<Rightarrow> int \<Rightarrow> blockchain \<Rightarrow> exn + unit"
  addTokens :: "trace \<Rightarrow> int \<Rightarrow> int \<Rightarrow> blockchain \<Rightarrow> exn + unit"
  addUpdateTokens :: "trace \<Rightarrow> int \<Rightarrow> int \<Rightarrow> blockchain \<Rightarrow> exn + unit"

record nodeApiService =
  getBidSuggestion ::
    "trace \<Rightarrow> string \<Rightarrow> int \<Rightarrow> string \<Rightarrow> string \<Rightarrow> jsnum \<Rightarrow> int \<Rightarrow> string \<Rightarrow> string \<Rightarrow> int \<Rightarrow> exn + int"
  localStore :: "trace \<Rightarrow> string \<Rightarrow> int \<Rightarrow> string \<Rightarrow> storedAssertion list \<Rightarrow> exn + string"
  getOperationResult ::
    "trace \<Rightarrow> string \<Rightarrow> int \<Rightarrow> string \<Rightarrow> operation \<Rightarrow> int \<Rightarrow> rat \<Rightarrow> string \<Rightarrow> exn + operationResult"
  publish ::
    "trace \<Rightarrow> string \<Rightarrow> int \<Rightarrow> string \<Rightarrow> string \<Rightarrow> string list \<Rightarrow> string \<Rightarrow> string \<Rightarrow> int \<Rightarrow> int \<Rightarrow> exn + string"
  update ::
    "trace \<Rightarrow> string \<Rightarrow> int \<Rightarrow> string \<Rightarrow> string \<Rightarrow> string list \<Rightarrow> string \<Rightarrow> string \<Rightarrow> int \<Rightarrow> int \<Rightarrow> exn + string"
  get :: "trace \<Rightarrow> string \<Rightarrow> int \<Rightarrow> string \<Rightarrow> string \<Rightarrow> string \<Rightarrow> int \<Rightarrow> exn + string"
  query :: "trace \<Rightarrow> string \<Rightarrow> int \<Rightarrow> string \<Rightarrow> string \<Rightarrow> string \<Rightarrow> string \<Rightarrow> exn + string"

record validationService =
  validateObjectType :: "json \<Rightarrow> exn + unit"
  validateAssetCreate :: "json \<Rightarrow> createArguments \<Rightarrow> exn + unit"
  validateAssetGet :: "string \<Rightarrow> getArguments \<Rightarrow> exn + unit"
  validateAssetUpdate :: "json \<Rightarrow> updateArguments \<Rightarrow> exn + unit"
  validateWaitAssetUpdateFinalization :: "string \<Rightarrow> blockchain \<Rightarrow> exn + unit"
  validateExtendAssetStoringPeriod :: "string \<Rightarrow> int \<Rightarrow> int \<Rightarrow> blockchain \<Rightarrow> exn + unit"
  validateAddTokens :: "string \<Rightarrow> int \<Rightarrow> blockchain \<Rightarrow> exn + unit"

record inputService =
  getAssetCreateArguments :: "json \<Rightarrow> exn + createArguments"
  getAssetGetArguments :: "json \<Rightarrow> exn + getArguments"
  getAssetUpdateArguments :: "json \<Rightarrow> exn + updateArguments"
  getBlockchain :: "json \<Rightarrow> exn + blockchain"
  getFrequency :: "json \<Rightarrow> exn + rat"
  getMaxNumberOfRetries :: "json \<Rightarrow> exn + int"
  getTokenAmount :: "json \<Rightarrow> exn + int option"
  getEndpoint :: "json \<Rightarrow> exn + string"
  getPort :: "json \<Rightarrow> exn + int"
  getAuthToken :: "json \<Rightarrow> exn + string"
  getHashFunctionId :: "json \<Rightarrow> exn + int"

text \<open>The module \<open>assertion-tools\<close>: canonicalisation, the root hash and the metrics of an assertion.\<close>

record assertionTools =
  formatAssertion :: "json \<Rightarrow> exn + string list"
  calculateRoot :: "json \<Rightarrow> exn + string"
  getAssertionSizeInBytes :: "string list \<Rightarrow> int"
  getAssertionTriplesNumber :: "string list \<Rightarrow> int"
  getAssertionChunksNumber :: "string list \<Rightarrow> int"

text \<open>The two functions of \<open>ethers\<close> the bid estimation uses.\<close>

record ethers =
  solidityPacked :: "string list \<Rightarrow> json list \<Rightarrow> exn + string"
  sha256 :: "string \<Rightarrow> exn + string"

text \<open>
  The functions of the utilities module that are parameters here. \<open>isEmptyObject\<close>,
  \<open>getOperationStatusObject\<close> and \<open>sleepForMilliseconds\<close> are modelled below.
\<close>

record utilities =
  deriveUAL :: "string \<Rightarrow> string \<Rightarrow> int \<Rightarrow> string"
  resolveUAL :: "string \<Rightarrow> exn + resolvedUAL"
  toNQuads :: "json \<Rightarrow> string \<Rightarrow> exn + string list"
  toJSONLD :: "string \<Rightarrow> exn + json"
  deriveRepository :: "string \<Rightarrow> string \<Rightarrow> string"

text \<open>The values of the constants module the file reads.\<close>

record constants =
  CONTENT_TYPES_PUBLIC :: string
  CONTENT_TYPES_PRIVATE :: string
  OPERATIONS_STEP_STATUS_CREATE_ASSET_COMPLETED :: string
  GET_OUTPUT_FORMATS_N_QUADS :: string
  OPERATION_STATUSES_PENDING :: string
  OPERATION_STATUSES_COMPLETED :: string
  OPERATION_STATUSES_FAILED :: string
  DEFAULT_GET_LOCAL_STORE_RESULT_FREQUENCY :: rat
  PRIVATE_ASSERTION_PREDICATE :: string
  QUERY_TYPES_CONSTRUCT :: string
  DEFAULT_PARAMETERS_GRAPH_LOCATION :: string
  DEFAULT_PARAMETERS_GRAPH_STATE :: string
  ASSET_STATES_LATEST :: string

text \<open>The step hooks of the caller.\<close>

record stepHooks =
  afterHook :: "trace \<Rightarrow> hookEvent \<Rightarrow> exn + unit"

text \<open>Everything an operation of the manager runs against.\<close>

record env =
  nodeApiService :: nodeApiService
  validationService :: validationService
  blockchainService :: blockchainService
  inputService :: inputService
  assertionTools :: assertionTools
  ethers :: ethers
  utilities :: utilities
  constants :: constants

subsection \<open>Helpers of the utilities module\<close>

text \<open>
  Modelled from the spec: \<open>isEmptyObject\<close> of the utilities module, which is not among the
  sources. The spec speaks of a partition that is "non-empty": an object without members is empty,
  every other value is not.
\<close>

fun isEmptyObject :: "json \<Rightarrow> bool" where
  "isEmptyObject (JObj kvs) = (kvs = [])"
| "isEmptyObject v = False"

text \<open>
  Modelled from the spec: \<open>getOperationStatusObject\<close> of the utilities module, which is not
  among the sources. The spec describes the summary as \<open>{operationId, status, data?}\<close>: the
  identifier handed in (or \<open>null\<close>), the status of the result, and the data of the result when
  there is one.
\<close>

definition getOperationStatusObject :: "operationResult \<Rightarrow> string option \<Rightarrow> json" where
  "getOperationStatusObject operationResult operationId =
     JObj ([(''operationId'', (case operationId of None \<Rightarrow> JNull | Some i \<Rightarrow> JStr i)),
            (''status'', JStr (status operationResult))]
           @ (if data operationResult = JUndefined then [] else [(''data'', data operationResult)]))"

text \<open>
  Modelled from the spec: \<open>sleepForMilliseconds\<close> of the utilities module, which is not among
  the sources: the fixed-interval sleep of a polling tick. It is an event and never fails.
\<close>

definition sleepForMilliseconds :: "rat \<Rightarrow> unit io" where
  "sleepForMilliseconds ms tr = (Inr (), tr @ [EvSleep ms])"

text \<open>
  Modelled from the spec: the default value \<open>emptyHooks\<close> of the step hooks, "a no-op callback
  object"; its module is not among the sources.
\<close>

definition emptyHooks :: stepHooks where
  "emptyHooks = \<lparr> afterHook = (\<lambda>tr e. Inr ()) \<rparr>"

subsection \<open>The awaited calls\<close>

definition chain_getContractAddress :: "env \<Rightarrow> string \<Rightarrow> blockchain \<Rightarrow> string io" where
  "chain_getContractAddress E n bc =
     await (\<lambda>tr. getContractAddress (blockchainService E) tr n bc) (EvGetContractAddress n bc)"

definition chain_createAsset :: "env \<Rightarrow> assetRequest \<Rightarrow> blockchain \<Rightarrow> int io" where
  "chain_createAsset E r bc =
     await (\<lambda>tr. createAsset (blockchainService E) tr r bc) (EvCreateAsset r bc)"

definition chain_updateAsset ::
  "env \<Rightarrow> int \<Rightarrow> string \<Rightarrow> int \<Rightarrow> int \<Rightarrow> int \<Rightarrow> int \<Rightarrow> blockchain \<Rightarrow> unit io" where
  "chain_updateAsset E t a sz tn cn amt bc =
     await (\<lambda>tr. updateAsset (blockchainService E) tr t a sz tn cn amt bc) (EvUpdateAsset t a sz tn cn amt bc)"

definition chain_hasPendingUpdate :: "env \<Rightarrow> int \<Rightarrow> blockchain \<Rightarrow> bool io" where
  "chain_hasPendingUpdate E t bc =
     await (\<lambda>tr. hasPendingUpdate (blockchainService E) tr t bc) (EvHasPendingUpdate t bc)"

definition chain_getUnfinalizedState :: "env \<Rightarrow> int \<Rightarrow> blockchain \<Rightarrow> string io" where
  "chain_getUnfinalizedState E t bc =
     await (\<lambda>tr. getUnfinalizedState (blockchainService E) tr t bc) (EvGetUnfinalizedState t bc)"

definition chain_getLatestAssertionId :: "env \<Rightarrow> int \<Rightarrow> blockchain \<Rightarrow> string io" where
  "chain_getLatestAssertionId E t bc =
     await (\<lambda>tr. getLatestAssertionId (blockchainService E) tr t bc) (EvGetLatestAssertionId t bc)"

definition chain_getAssertionIdByIndex :: "env \<Rightarrow> int \<Rightarrow> int \<Rightarrow> blockchain \<Rightarrow> string io" where
  "chain_getAssertionIdByIndex E t i bc =
     await (\<lambda>tr. getAssertionIdByIndex (blockchainService E) tr t i bc) (EvGetAssertionIdByIndex t i bc)"

definition chain_getAssertionSize :: "env \<Rightarrow> string \<Rightarrow> blockchain \<Rightarrow> int io" where
  "chain_getAssertionSize E a bc =
     await (\<lambda>tr. getAssertionSize (blockchainService E) tr a bc) (EvGetAssertionSize a bc)"

definition chain_getAgreementData :: "env \<Rightarrow> string \<Rightarrow> blockchain \<Rightarrow> agreementData io" where
  "chain_getAgreementData E a bc =
     await (\<lambda>tr. getAgreementData (blockchainService E) tr a bc) (EvGetAgreementData a bc)"

definition chain_getBlockchainTimestamp :: "env \<Rightarrow> blockchain \<Rightarrow> int io" where
  "chain_getBlockchainTimestamp E bc =
     await (\<lambda>tr. getBlockchainTimestamp (blockchainService E) tr bc) (EvGetBlockchainTimestamp bc)"

definition chain_extendAssetStoringPeriod :: "env \<Rightarrow> int \<Rightarrow> int \<Rightarrow> int \<Rightarrow> blockchain \<Rightarrow> unit io" where
  "chain_extendAssetStoringPeriod E t n amt bc =
     await (\<lambda>tr. extendAssetStoringPeriod (blockchainService E) tr t n amt bc)
       (EvExtendAssetStoringPeriod t n amt bc)"

definition chain_addTokens :: "env \<Rightarrow> int \<Rightarrow> int \<Rightarrow> blockchain \<Rightarrow> unit io" where
  "chain_addTokens E t amt bc =
     await (\<lambda>tr. blockchainService.addTokens (blockchainService E) tr t amt bc) (EvAddTokens t amt bc)"

definition chain_addUpdateTokens :: "env \<Rightarrow> int \<Rightarrow> int \<Rightarrow> blockchain \<Rightarrow> unit io" where
  "chain_addUpdateTokens E t amt bc =
     await (\<lambda>tr. blockchainService.addUpdateTokens (blockchainService E) tr t amt bc)
       (EvAddUpdateTokens t amt bc)"

definition node_getBidSuggestion ::
  "env \<Rightarrow> string \<Rightarrow> int \<Rightarrow> string \<Rightarrow> string \<Rightarrow> jsnum \<Rightarrow> int \<Rightarrow> string \<Rightarrow> string \<Rightarrow> int \<Rightarrow> int io" where
  "node_getBidSuggestion E ep po au bn epochs sz c a h =
     await (\<lambda>tr. getBidSuggestion (nodeApiService E) tr ep po au bn epochs sz c a h)
       (EvGetBidSuggestion ep po au bn epochs sz c a h)"

definition node_localStore :: "env \<Rightarrow> string \<Rightarrow> int \<Rightarrow> string \<Rightarrow> storedAssertion list \<Rightarrow> string io" where
  "node_localStore E ep po au xs =
     await (\<lambda>tr. localStore (nodeApiService E) tr ep po au xs) (EvLocalStore ep po au xs)"

definition node_getOperationResult ::
  "env \<Rightarrow> string \<Rightarrow> int \<Rightarrow> string \<Rightarrow> operation \<Rightarrow> int \<Rightarrow> rat \<Rightarrow> string \<Rightarrow> operationResult io" where
  "node_getOperationResult E ep po au op n f i =
     await (\<lambda>tr. getOperationResult (nodeApiService E) tr ep po au op n f i)
       (EvGetOperationResult ep po au op n f i)"

definition node_publish ::
  "env \<Rightarrow> string \<Rightarrow> int \<Rightarrow> string \<Rightarrow> string \<Rightarrow> string list \<Rightarrow> string \<Rightarrow> string \<Rightarrow> int \<Rightarrow> int \<Rightarrow> string io" where
  "node_publish E ep po au a xs bn c t h =
     await (\<lambda>tr. publish (nodeApiService E) tr ep po au a xs bn c t h) (EvPublish ep po au a xs bn c t h)"

definition node_update ::
  "env \<Rightarrow> string \<Rightarrow> int \<Rightarrow> string \<Rightarrow> string \<Rightarrow> string list \<Rightarrow> string \<Rightarrow> string \<Rightarrow> int \<Rightarrow> int \<Rightarrow> string io" where
  "node_update E ep po au a xs bn c t h =
     await (\<lambda>tr. nodeApiService.update (nodeApiService E) tr ep po au a xs bn c t h)
       (EvUpdate ep po au a xs bn c t h)"

definition node_get :: "env \<Rightarrow> string \<Rightarrow> int \<Rightarrow> string \<Rightarrow> string \<Rightarrow> string \<Rightarrow> int \<Rightarrow> string io" where
  "node_get E ep po au ual st h =
     await (\<lambda>tr. nodeApiService.get (nodeApiService E) tr ep po au ual st h) (EvGet ep po au ual st h)"

definition node_query :: "env \<Rightarrow> string \<Rightarrow> int \<Rightarrow> string \<Rightarrow> string \<Rightarrow> string \<Rightarrow> string \<Rightarrow> string io" where
  "node_query E ep po au q ty repo =
     await (\<lambda>tr. query (nodeApiService E) tr ep po au q ty repo) (EvQuery ep po au q ty repo)"

definition hook_afterHook :: "stepHooks \<Rightarrow> hookEvent \<Rightarrow> unit io" where
  "hook_afterHook hooks e = await (\<lambda>tr. afterHook hooks tr e) (EvAfterHook e)"

section \<open>The asset operations manager\<close>

subsection \<open>The update bid suggestion\<close>

text \<open>
  The method \<open>_getUpdateBidSuggestion\<close>. The amounts are integers: the suggestion of the
  node and the two committed amounts are converted with \<open>BigInt\<close>, and an absent
  \<open>updateTokenAmount\<close> counts as 0.
\<close>

definition getUpdateBidSuggestion ::
  "env \<Rightarrow> string \<Rightarrow> blockchain \<Rightarrow> string \<Rightarrow> int \<Rightarrow> string \<Rightarrow> string \<Rightarrow> int \<Rightarrow> int \<Rightarrow> int io" where
  "getUpdateBidSuggestion E UAL bc ep po au stateId sizeInBytes hashFn =
     andThen (pure (resolveUAL (utilities E) UAL)) (\<lambda>u.
     andThen (chain_getAssertionIdByIndex E (resolvedUAL.tokenId u) 0 bc) (\<lambda>firstAssertionId.
     andThen (pure (solidityPacked (ethers E) [''address'', ''bytes32'']
                      [JStr (resolvedUAL.contract u), JStr firstAssertionId])) (\<lambda>keyword.
     andThen (pure (solidityPacked (ethers E) [''address'', ''uint256'', ''bytes'']
                      [JStr (resolvedUAL.contract u), JNum (resolvedUAL.tokenId u), JStr keyword])) (\<lambda>packed.
     andThen (pure (sha256 (ethers E) packed)) (\<lambda>agreementId.
     andThen (chain_getAgreementData E agreementId bc) (\<lambda>agreementData.
     andThen (chain_getBlockchainTimestamp E bc) (\<lambda>now.
       let currentEpoch = floorDiv (now - startTime agreementData) (epochLength agreementData);
           epochsLeft = minus (epochsNumber agreementData) currentEpoch
       in
     andThen (node_getBidSuggestion E ep po au
                (if startsWith (name bc) ''otp'' then ''otp'' else name bc)
                epochsLeft sizeInBytes (resolvedUAL.contract u) stateId hashFn) (\<lambda>bidSuggestion.
       let tokenAmountInWei =
             bidSuggestion
             - (agreementData.tokenAmount agreementData
                + (case updateTokenAmount agreementData of None \<Rightarrow> 0 | Some v \<Rightarrow> v))
       in ret (if 0 < tokenAmountInWei then tokenAmountInWei else 0)))))))))"

subsection \<open>Create and update\<close>

text \<open>An assertion as the value \<open>calculateRoot\<close> receives.\<close>

definition assertionValue :: "string list \<Rightarrow> json" where
  "assertionValue a = JArr (map JStr a)"

text \<open>
  The private assertion and its root, computed when the private partition is truthy and not
  an empty object; \<open>undefined\<close> (\<open>None\<close>) otherwise. Canonicalisation and root are
  library functions: the step awaits no collaborator.
\<close>

definition privatePart :: "env \<Rightarrow> json \<Rightarrow> exn + (string list option \<times> string option)" where
  "privatePart E jsonContentPrivate =
     (if truthy jsonContentPrivate \<and> \<not> isEmptyObject jsonContentPrivate
      then (case formatAssertion (assertionTools E) jsonContentPrivate of
              Inl e \<Rightarrow> Inl e
            | Inr privateAssertion \<Rightarrow>
                (case calculateRoot (assertionTools E) (assertionValue privateAssertion) of
                   Inl e \<Rightarrow> Inl e
                 | Inr privateAssertionId \<Rightarrow> Inr (Some privateAssertion, Some privateAssertionId)))
      else Inr (None, None))"

text \<open>
  The constant \<open>publicGraph\<close> of create and of update: the public partition (or
  \<open>null\<close>) and the node that links the private assertion's root (or \<open>null\<close>).
\<close>

definition publicGraph :: "env \<Rightarrow> json \<Rightarrow> json \<Rightarrow> string option \<Rightarrow> json" where
  "publicGraph E jsonContentPublic jsonContentPrivate privateAssertionId =
     JObj [(''@graph'',
            JArr [(if truthy jsonContentPublic \<and> \<not> isEmptyObject jsonContentPublic
                   then jsonContentPublic else JNull),
                  (if truthy jsonContentPrivate \<and> \<not> isEmptyObject jsonContentPrivate
                   then JObj [(PRIVATE_ASSERTION_PREDICATE (constants E),
                               (case privateAssertionId of None \<Rightarrow> JUndefined | Some r \<Rightarrow> JStr r))]
                   else JNull)])]"

text \<open>The array \<open>assertions\<close> handed to the local store.\<close>

definition assertionsToStore ::
  "string \<Rightarrow> string \<Rightarrow> int \<Rightarrow> storeType \<Rightarrow> string \<Rightarrow> string list \<Rightarrow> string list option \<Rightarrow> string option
   \<Rightarrow> storedAssertion list" where
  "assertionsToStore bn c t st publicId publicA privateA privateId =
     \<lparr> storedAssertion.blockchain = bn, storedAssertion.contract = c, storedAssertion.tokenId = t,
       assertionId = publicId, assertion = publicA, storeType = st \<rparr>
     # (case privateA of
          None \<Rightarrow> []
        | Some pa \<Rightarrow>
            (if pa \<noteq> []
             then [\<lparr> storedAssertion.blockchain = bn, storedAssertion.contract = c, storedAssertion.tokenId = t,
                     assertionId = (case privateId of None \<Rightarrow> [] | Some r \<Rightarrow> r),
                     assertion = pa, storeType = st \<rparr>]
             else []))"

definition create :: "env \<Rightarrow> json \<Rightarrow> json \<Rightarrow> stepHooks \<Rightarrow> json io" where
  "create E content options stepHooks =
     andThen (pure (validateObjectType (validationService E) content)) (\<lambda>_.
     andThen (pure (member content ''public'')) (\<lambda>contentPublic.
     andThen (pure (if \<not> truthy contentPublic then member content ''private'' else Inr JUndefined)) (\<lambda>contentPrivate.
       let jsonContent =
             (if \<not> truthy contentPublic \<and> \<not> truthy contentPrivate
              then JObj [(''public'', content)] else content)
       in
     andThen (pure (getAssetCreateArguments (inputService E) options)) (\<lambda>args.
     andThen (pure (validateAssetCreate (validationService E) jsonContent args)) (\<lambda>_.
     andThen (pure (member jsonContent ''private'')) (\<lambda>jsonContentPrivate.
     andThen (pure (privatePart E jsonContentPrivate)) (\<lambda>(privateAssertion, privateAssertionId).
     andThen (pure (member jsonContent ''public'')) (\<lambda>jsonContentPublic.
     andThen (pure (formatAssertion (assertionTools E)
                      (publicGraph E jsonContentPublic jsonContentPrivate privateAssertionId))) (\<lambda>publicAssertion.
     andThen (pure (calculateRoot (assertionTools E) (assertionValue publicAssertion))) (\<lambda>publicAssertionId.
     andThen (chain_getContractAddress E ''ContentAssetStorage'' (commonArguments.blockchain args)) (\<lambda>contentAssetStorageAddress.
     andThen (case updateArguments.tokenAmount args of
                Some t \<Rightarrow> ret t
              | None \<Rightarrow>
                  node_getBidSuggestion E (endpoint args) (port args) (authToken args)
                    (if startsWith (name (commonArguments.blockchain args)) ''otp'' then ''otp''
                     else name (commonArguments.blockchain args))
                    (Num (createArguments.epochsNum args))
                    (getAssertionSizeInBytes (assertionTools E) publicAssertion)
                    contentAssetStorageAddress publicAssertionId (hashFunctionId args)) (\<lambda>tokenAmountInWei.
     andThen (chain_createAsset E
                \<lparr> publicAssertionId = publicAssertionId,
                  assertionSize = getAssertionSizeInBytes (assertionTools E) publicAssertion,
                  triplesNumber = getAssertionTriplesNumber (assertionTools E) publicAssertion,
                  chunksNumber = getAssertionChunksNumber (assertionTools E) publicAssertion,
                  assetRequest.epochsNum = createArguments.epochsNum args,
                  assetRequest.tokenAmount = tokenAmountInWei,
                  assetRequest.scoreFunctionId =
                    (case updateArguments.scoreFunctionId args of None \<Rightarrow> 1 | Some f \<Rightarrow> f),
                  immutable_ = immutable args \<rparr>
                (commonArguments.blockchain args)) (\<lambda>tokenId.
     andThen (node_localStore E (endpoint args) (port args) (authToken args)
                (assertionsToStore
                   (if startsWith (name (commonArguments.blockchain args)) ''otp'' then ''otp''
                    else name (commonArguments.blockchain args))
                   contentAssetStorageAddress tokenId TRIPLE
                   publicAssertionId publicAssertion privateAssertion privateAssertionId)) (\<lambda>operationId.
     andThen (node_getOperationResult E (endpoint args) (port args) (authToken args) LOCAL_STORE
                (maxNumberOfRetries args)
                (DEFAULT_GET_LOCAL_STORE_RESULT_FREQUENCY (constants E)) operationId) (\<lambda>operationResult.
       let UAL = deriveUAL (utilities E)
                   (if startsWith (name (commonArguments.blockchain args)) ''otp'' then ''otp''
                    else name (commonArguments.blockchain args))
                   contentAssetStorageAddress tokenId
       in
       if status operationResult = OPERATION_STATUSES_FAILED (constants E)
       then ret (JObj [(''UAL'', JStr UAL),
                       (''assertionId'', JStr publicAssertionId),
                       (''operation'', getOperationStatusObject operationResult (Some operationId))])
       else
     andThen (node_publish E (endpoint args) (port args) (authToken args)
                publicAssertionId publicAssertion
                (if startsWith (name (commonArguments.blockchain args)) ''otp'' then ''otp''
                 else name (commonArguments.blockchain args))
                contentAssetStorageAddress tokenId (hashFunctionId args)) (\<lambda>operationId.
     andThen (node_getOperationResult E (endpoint args) (port args) (authToken args) PUBLISH
                (maxNumberOfRetries args) (frequency args) operationId) (\<lambda>operationResult.
     andThen (hook_afterHook stepHooks
                (HookEvent (OPERATIONS_STEP_STATUS_CREATE_ASSET_COMPLETED (constants E))
                   operationId operationResult)) (\<lambda>_.
       ret (JObj [(''UAL'', JStr UAL),
                  (''publicAssertionId'', JStr publicAssertionId),
                  (''operation'', getOperationStatusObject operationResult (Some operationId))])))))))))))))))))))"

definition update :: "env \<Rightarrow> string \<Rightarrow> json \<Rightarrow> json \<Rightarrow> json io" where
  "update E UAL content options =
     andThen (pure (validateObjectType (validationService E) content)) (\<lambda>_.
       let jsonContent = content in
     andThen (pure (getAssetUpdateArguments (inputService E) options)) (\<lambda>args.
     andThen (pure (validateAssetUpdate (validationService E) jsonContent args)) (\<lambda>_.
     andThen (pure (resolveUAL (utilities E) UAL)) (\<lambda>u.
     andThen (pure (member jsonContent ''private'')) (\<lambda>jsonContentPrivate.
     andThen (pure (privatePart E jsonContentPrivate)) (\<lambda>(privateAssertion, privateAssertionId).
     andThen (pure (member jsonContent ''public'')) (\<lambda>jsonContentPublic.
     andThen (pure (formatAssertion (assertionTools E)
                      (publicGraph E jsonContentPublic jsonContentPrivate privateAssertionId))) (\<lambda>publicAssertion.
     andThen (pure (calculateRoot (assertionTools E) (assertionValue publicAssertion))) (\<lambda>publicAssertionId.
     andThen (chain_getContractAddress E ''ContentAssetStorage'' (commonArguments.blockchain args)) (\<lambda>contentAssetStorageAddress.
     andThen (case updateArguments.tokenAmount args of
                Some t \<Rightarrow> ret t
              | None \<Rightarrow>
                  getUpdateBidSuggestion E UAL (commonArguments.blockchain args)
                    (endpoint args) (port args) (authToken args) publicAssertionId
                    (getAssertionSizeInBytes (assertionTools E) publicAssertion)
                    (hashFunctionId args)) (\<lambda>tokenAmountInWei.
     andThen (chain_updateAsset E (resolvedUAL.tokenId u) publicAssertionId
                (getAssertionSizeInBytes (assertionTools E) publicAssertion)
                (getAssertionTriplesNumber (assertionTools E) publicAssertion)
                (getAssertionChunksNumber (assertionTools E) publicAssertion)
                tokenAmountInWei (commonArguments.blockchain args)) (\<lambda>_.
     andThen (node_localStore E (endpoint args) (port args) (authToken args)
                (assertionsToStore
                   (if startsWith (name (commonArguments.blockchain args)) ''otp'' then ''otp''
                    else name (commonArguments.blockchain args))
                   contentAssetStorageAddress (resolvedUAL.tokenId u) PENDING
                   publicAssertionId publicAssertion privateAssertion privateAssertionId)) (\<lambda>operationId.
     andThen (node_getOperationResult E (endpoint args) (port args) (authToken args) LOCAL_STORE
                (maxNumberOfRetries args)
                (DEFAULT_GET_LOCAL_STORE_RESULT_FREQUENCY (constants E)) operationId) (\<lambda>operationResult.
       if status operationResult = OPERATION_STATUSES_FAILED (constants E)
       then ret (JObj [(''UAL'', JStr UAL),
                       (''assertionId'', JStr publicAssertionId),
                       (''operation'', getOperationStatusObject operationResult (Some operationId))])
       else
     andThen (node_update E (endpoint args) (port args) (authToken args)
                publicAssertionId publicAssertion
                (if startsWith (name (commonArguments.blockchain args)) ''otp'' then ''otp''
                 else name (commonArguments.blockchain args))
                contentAssetStorageAddress (resolvedUAL.tokenId u) (hashFunctionId args)) (\<lambda>operationId.
     andThen (node_getOperationResult E (endpoint args) (port args) (authToken args) UPDATE
                (maxNumberOfRetries args) (frequency args) operationId) (\<lambda>operationResult.
       ret (JObj [(''UAL'', JStr UAL),
                  (''operation'', getOperationStatusObject operationResult (Some operationId))])))))))))))))))))"

subsection \<open>Get\<close>

text \<open>The error object \<open>{errorType: 'DKG_CLIENT_ERROR', errorMessage}\<close>.\<close>

definition clientError :: "string \<Rightarrow> json" where
  "clientError m = JObj [(''errorType'', JStr ''DKG_CLIENT_ERROR''), (''errorMessage'', JStr m)]"

text \<open>\<open>result.operation.k = v\<close>, on a result whose \<open>operation\<close> is an object.\<close>

definition setOperationMember :: "(string \<times> json) list \<Rightarrow> string \<Rightarrow> json \<Rightarrow> (string \<times> json) list" where
  "setOperationMember result k v =
     setMember result ''operation''
       (case map_of result ''operation'' of
          Some (JObj ops) \<Rightarrow> JObj (setMember ops k v)
        | _ \<Rightarrow> JObj [(k, v)])"

text \<open>
  The formatting inside \<open>try\<close>: the statements joined by newlines, converted to JSON-LD
  unless N-Quads are asked for. \<open>Inl\<close> is the error the \<open>catch\<close> receives.
\<close>

definition formatted :: "env \<Rightarrow> getArguments \<Rightarrow> json \<Rightarrow> exn + json" where
  "formatted E args a =
     (case joinOf a [CHR 0x0A] of
        Inl e \<Rightarrow> Inl e
      | Inr joined \<Rightarrow>
          (if outputFormat args \<noteq> GET_OUTPUT_FORMATS_N_QUADS (constants E)
           then toJSONLD (utilities E) joined
           else Inr (JStr joined)))"

text \<open>
  The block under \<open>contentType !== CONTENT_TYPES.PRIVATE\<close>: the members of the result
  and the operation result of the public get after it.
\<close>

definition getPublicBlock ::
  "env \<Rightarrow> getArguments \<Rightarrow> json \<Rightarrow> string \<Rightarrow> operationResult \<Rightarrow> string \<Rightarrow> (string \<times> json) list
   \<Rightarrow> (string \<times> json) list \<times> operationResult" where
  "getPublicBlock E args publicA publicId getPublicOperationResult getPublicOperationId result =
     (let (formattedPublicAssertion, opResult) =
            (case formatted E args publicA of
               Inl error \<Rightarrow> (publicA, getPublicOperationResult\<lparr>data := clientError (message error)\<rparr>)
             | Inr f \<Rightarrow> (f, getPublicOperationResult));
          result' =
            (if contentType args = CONTENT_TYPES_PUBLIC (constants E)
             then setMember (setMember result ''assertion'' formattedPublicAssertion)
                    ''assertionId'' (JStr publicId)
             else setMember result ''public''
                    (JObj [(''assertion'', formattedPublicAssertion), (''assertionId'', JStr publicId)]))
      in (setOperationMember result' ''publicGet''
            (getOperationStatusObject opResult (Some getPublicOperationId)),
          opResult))"

text \<open>The SPARQL query for the private assertion's graph, with the whitespace of the template.\<close>

definition queryString :: "string \<Rightarrow> string" where
  "queryString privateId =
     [CHR 0x0A] @ replicate 20 CHR '' '' @ ''CONSTRUCT { ?s ?p ?o }'' @
     [CHR 0x0A] @ replicate 20 CHR '' '' @ ''WHERE {'' @
     [CHR 0x0A] @ replicate 24 CHR '' '' @ ''{'' @
     [CHR 0x0A] @ replicate 28 CHR '' '' @ ''GRAPH <assertion:'' @ privateId @ ''>'' @
     [CHR 0x0A] @ replicate 28 CHR '' '' @ ''{'' @
     [CHR 0x0A] @ replicate 32 CHR '' '' @ ''?s ?p ?o .'' @
     [CHR 0x0A] @ replicate 28 CHR '' '' @ ''}'' @
     [CHR 0x0A] @ replicate 24 CHR '' '' @ ''}'' @
     [CHR 0x0A] @ replicate 20 CHR '' '' @ ''}''"

text \<open>
  The block under \<open>contentType !== CONTENT_TYPES.PUBLIC\<close>. The private assertion comes
  inlined with the public get or from a query on the node; \<open>queryPrivate\<close> is the
  identifier and the result of that query (\<open>None\<close> when no query was issued: what the
  source then assigns to the data of its empty result object is never read).
\<close>

definition getPrivateBlock ::
  "env \<Rightarrow> getArguments \<Rightarrow> json \<Rightarrow> operationResult \<Rightarrow> (string \<times> json) list \<Rightarrow> (string \<times> json) list io" where
  "getPrivateBlock E args publicA getPublicOperationResult result =
     andThen (pure (firstIncluding publicA (PRIVATE_ASSERTION_PREDICATE (constants E)))) (\<lambda>privateAssertionLinkTriple.
       if \<not> truthy privateAssertionLinkTriple then ret result
       else
     andThen (pure (matchGroup1 privateAssertionLinkTriple)) (\<lambda>privateId.
     andThen (if truthy (optLength (optMember (data getPublicOperationResult) ''privateAssertion''))
              then ret (optMember (data getPublicOperationResult) ''privateAssertion'', None)
              else
                andThen (node_query E (endpoint args) (port args) (authToken args)
                           (queryString privateId) (QUERY_TYPES_CONSTRUCT (constants E))
                           (deriveRepository (utilities E)
                              (DEFAULT_PARAMETERS_GRAPH_LOCATION (constants E))
                              (DEFAULT_PARAMETERS_GRAPH_STATE (constants E)))) (\<lambda>queryPrivateOperationId.
                andThen (node_getOperationResult E (endpoint args) (port args) (authToken args) QUERY
                           (maxNumberOfRetries args) (frequency args) queryPrivateOperationId) (\<lambda>queryPrivateOperationResult.
                andThen (pure (toNQuads (utilities E) (data queryPrivateOperationResult)
                                 ''application/n-quads'')) (\<lambda>privateAssertionNQuads.
                ret (assertionValue privateAssertionNQuads,
                     Some (queryPrivateOperationId, queryPrivateOperationResult))))))
             (\<lambda>(privateA, queryPrivate).
     andThen (pure (if truthy (optLength privateA) \<and> validate args
                    then (case calculateRoot (assertionTools E) privateA of
                            Inl e \<Rightarrow> Inl e
                          | Inr calculated \<Rightarrow> Inr (calculated \<noteq> privateId))
                    else Inr False)) (\<lambda>mismatch.
       let queryPrivate1 =
             (if mismatch
              then map_option (\<lambda>(i, r). (i, r\<lparr>data := clientError ''Calculated root hashes don't match!''\<rparr>))
                     queryPrivate
              else queryPrivate);
           (formattedPrivateAssertion, queryPrivate2) =
             (case formatted E args privateA of
                Inl error \<Rightarrow>
                  (JUndefined,
                   map_option (\<lambda>(i, r). (i, r\<lparr>data := clientError (message error)\<rparr>)) queryPrivate1)
              | Inr f \<Rightarrow> (f, queryPrivate1));
           result' =
             (if contentType args = CONTENT_TYPES_PRIVATE (constants E)
              then setMember (setMember result ''assertion'' formattedPrivateAssertion)
                     ''assertionId'' (JStr privateId)
              else setMember result ''private''
                     (JObj [(''assertion'', formattedPrivateAssertion), (''assertionId'', JStr privateId)]))
       in ret (case queryPrivate2 of
                 None \<Rightarrow> result'
               | Some (i, r) \<Rightarrow>
                   (if i \<noteq> []
                    then setOperationMember result' ''queryPrivate'' (getOperationStatusObject r (Some i))
                    else result'))))))"

text \<open>
  What get does with the polled result of the public get (from the test for an assertion
  to the \<open>return\<close>).
\<close>

definition assembleGetResult ::
  "env \<Rightarrow> getArguments \<Rightarrow> string \<Rightarrow> string \<Rightarrow> operationResult \<Rightarrow> json io" where
  "assembleGetResult E args publicId getPublicOperationId getPublicOperationResult =
     andThen (pure (member (data getPublicOperationResult) ''assertion'')) (\<lambda>publicA.
       if \<not> truthy publicA
       then ret (clientError ''Unable to find assertion on the network!'')
       else
     andThen (pure (if validate args
                    then (case calculateRoot (assertionTools E) publicA of
                            Inl e \<Rightarrow> Inl e
                          | Inr calculated \<Rightarrow>
                              Inr (if calculated \<noteq> publicId
                                   then getPublicOperationResult
                                          \<lparr>data := clientError ''Calculated root hashes don't match!''\<rparr>
                                   else getPublicOperationResult))
                    else Inr getPublicOperationResult)) (\<lambda>getPublicOperationResult.
       let (result, getPublicOperationResult) =
             (if contentType args \<noteq> CONTENT_TYPES_PRIVATE (constants E)
              then getPublicBlock E args publicA publicId getPublicOperationResult
                     getPublicOperationId [(''operation'', JObj [])]
              else ([(''operation'', JObj [])], getPublicOperationResult))
       in
     andThen (if contentType args \<noteq> CONTENT_TYPES_PUBLIC (constants E)
              then getPrivateBlock E args publicA getPublicOperationResult result
              else ret result) (\<lambda>result.
       ret (JObj result))))"

definition get :: "env \<Rightarrow> string \<Rightarrow> json \<Rightarrow> json io" where
  "get E UAL options =
     andThen (pure (getAssetGetArguments (inputService E) options)) (\<lambda>args.
     andThen (pure (validateAssetGet (validationService E) UAL args)) (\<lambda>_.
     andThen (pure (resolveUAL (utilities E) UAL)) (\<lambda>u.
     andThen (if state args = ASSET_STATES_LATEST (constants E)
              then chain_hasPendingUpdate E (resolvedUAL.tokenId u) (commonArguments.blockchain args)
              else ret False) (\<lambda>pending.
     andThen (if pending
              then chain_getUnfinalizedState E (resolvedUAL.tokenId u) (commonArguments.blockchain args)
              else chain_getLatestAssertionId E (resolvedUAL.tokenId u) (commonArguments.blockchain args)) (\<lambda>publicId.
     andThen (node_get E (endpoint args) (port args) (authToken args) UAL (state args)
                (hashFunctionId args)) (\<lambda>getPublicOperationId.
     andThen (node_getOperationResult E (endpoint args) (port args) (authToken args) GET
                (maxNumberOfRetries args) (frequency args) getPublicOperationId) (\<lambda>getPublicOperationResult.
       assembleGetResult E args publicId getPublicOperationId getPublicOperationResult)))))))"

subsection \<open>Waiting for the finalization\<close>

text \<open>
  The \<open>do ... while (pendingUpdate)\<close> loop on the variables \<open>pendingUpdate\<close>,
  \<open>retries\<close> and \<open>response.data\<close>; it returns them as they are when the loop is left.
\<close>

function doWhilePending ::
  "env \<Rightarrow> int \<Rightarrow> blockchain \<Rightarrow> rat \<Rightarrow> int \<Rightarrow> bool \<times> int \<times> json \<Rightarrow> (bool \<times> int \<times> json) io" where
  "doWhilePending E t bc freq maxRetries (pendingUpdate, retries, responseData) tr =
     (if retries > maxRetries
      then (Inr (pendingUpdate, retries,
                 JObj [(''data'', JObj [(''errorType'', JStr ''DKG_CLIENT_ERROR''),
                                        (''errorMessage'',
                                         JStr ''Unable to get results. Max number of retries reached.'')])]),
            tr)
      else (case sleepForMilliseconds (freq * 1000) tr of
              (Inl e, tr1) \<Rightarrow> (Inl e, tr1)
            | (Inr _, tr1) \<Rightarrow>
                (case chain_hasPendingUpdate E t bc tr1 of
                   (Inl e, tr2) \<Rightarrow> (Inl e, tr2)
                 | (Inr p, tr2) \<Rightarrow>
                     (if p then doWhilePending E t bc freq maxRetries (p, retries + 1, responseData) tr2
                      else (Inr (p, retries + 1, responseData), tr2)))))"
  by pat_completeness auto
termination
  by (relation "measure (\<lambda>(E, t, bc, freq, maxRetries, (p, retries, d), tr). nat (maxRetries + 1 - retries))") auto

definition waitFinalization :: "env \<Rightarrow> string \<Rightarrow> json \<Rightarrow> json io" where
  "waitFinalization E UAL options =
     andThen (pure (getBlockchain (inputService E) options)) (\<lambda>bc.
     andThen (pure (getFrequency (inputService E) options)) (\<lambda>freq.
     andThen (pure (getMaxNumberOfRetries (inputService E) options)) (\<lambda>maxRetries.
     andThen (pure (validateWaitAssetUpdateFinalization (validationService E) UAL bc)) (\<lambda>_.
     andThen (pure (resolveUAL (utilities E) UAL)) (\<lambda>u.
     andThen (doWhilePending E (resolvedUAL.tokenId u) bc freq maxRetries (True, 0, JUndefined)) (\<lambda>(pendingUpdate, retries, responseData).
       ret (JObj [(''UAL'', JStr UAL),
                  (''operation'',
                   getOperationStatusObject
                     \<lparr> status = (if pendingUpdate then OPERATION_STATUSES_PENDING (constants E)
                                 else OPERATION_STATUSES_COMPLETED (constants E)),
                       data = responseData \<rparr>
                     None)])))))))"

subsection \<open>Extending the storing period and adding tokens\<close>


text \<open>The message of the error \<open>addTokens\<close> and \<open>addUpdateTokens\<close> throw.\<close>

definition tokenAmountError :: exn where
  "tokenAmountError =
     Error ''Token amount is bigger than default suggested amount, please specify exact tokenAmount if you still want to add more tokens!''"

definition addTokens :: "env \<Rightarrow> string \<Rightarrow> json \<Rightarrow> json io" where
  "addTokens E UAL options =
     andThen (pure (getBlockchain (inputService E) options)) (\<lambda>bc.
     andThen (pure (getTokenAmount (inputService E) options)) (\<lambda>amount.
     andThen (pure (resolveUAL (utilities E) UAL)) (\<lambda>u.
     andThen (case amount of
                Some t \<Rightarrow> ret t
              | None \<Rightarrow>
                  andThen (pure (getEndpoint (inputService E) options)) (\<lambda>ep.
                  andThen (pure (getPort (inputService E) options)) (\<lambda>po.
                  andThen (pure (getAuthToken (inputService E) options)) (\<lambda>au.
                  andThen (pure (getHashFunctionId (inputService E) options)) (\<lambda>hashFn.
                  andThen (chain_getLatestAssertionId E (resolvedUAL.tokenId u) bc) (\<lambda>latestFinalizedState.
                  andThen (chain_getAssertionSize E latestFinalizedState bc) (\<lambda>latestFinalizedStateSize.
                  andThen (getUpdateBidSuggestion E UAL bc ep po au latestFinalizedState
                             latestFinalizedStateSize hashFn) (\<lambda>tokenAmountInWei.
                  if tokenAmountInWei \<le> 0 then pure (Inl tokenAmountError)
                  else ret tokenAmountInWei)))))))) (\<lambda>tokenAmountInWei.
     andThen (pure (validateAddTokens (validationService E) UAL tokenAmountInWei bc)) (\<lambda>_.
     andThen (chain_addTokens E (resolvedUAL.tokenId u) tokenAmountInWei bc) (\<lambda>_.
       ret (JObj [(''UAL'', JStr UAL),
                  (''operation'',
                   getOperationStatusObject \<lparr> status = ''COMPLETED'', data = JUndefined \<rparr> None)])))))))"

definition addUpdateTokens :: "env \<Rightarrow> string \<Rightarrow> json \<Rightarrow> json io" where
  "addUpdateTokens E UAL options =
     andThen (pure (getBlockchain (inputService E) options)) (\<lambda>bc.
     andThen (pure (getTokenAmount (inputService E) options)) (\<lambda>amount.
     andThen (pure (resolveUAL (utilities E) UAL)) (\<lambda>u.
     andThen (case amount of
                Some t \<Rightarrow> ret t
              | None \<Rightarrow>
                  andThen (pure (getEndpoint (inputService E) options)) (\<lambda>ep.
                  andThen (pure (getPort (inputService E) options)) (\<lambda>po.
                  andThen (pure (getAuthToken (inputService E) options)) (\<lambda>au.
                  andThen (pure (getHashFunctionId (inputService E) options)) (\<lambda>hashFn.
                  andThen (chain_getUnfinalizedState E (resolvedUAL.tokenId u) bc) (\<lambda>unfinalizedState.
                  andThen (chain_getAssertionSize E unfinalizedState bc) (\<lambda>unfinalizedStateSize.
                  andThen (getUpdateBidSuggestion E UAL bc ep po au unfinalizedState
                             unfinalizedStateSize hashFn) (\<lambda>tokenAmountInWei.
                  if tokenAmountInWei \<le> 0 then pure (Inl tokenAmountError)
                  else ret tokenAmountInWei)))))))) (\<lambda>tokenAmountInWei.
     andThen (pure (validateAddTokens (validationService E) UAL tokenAmountInWei bc)) (\<lambda>_.
     andThen (chain_addUpdateTokens E (resolvedUAL.tokenId u) tokenAmountInWei bc) (\<lambda>_.
       ret (JObj [(''UAL'', JStr UAL),
                  (''operation'',
                   getOperationStatusObject \<lparr> status = ''COMPLETED'', data = JUndefined \<rparr> None)])))))))"

section \<open>Reading a run\<close>










text \<open>The answers of the on-chain checks for a pending update, in order.\<close>

fun pendingCheck :: "event \<Rightarrow> (exn + bool) option" where
  "pendingCheck (EvHasPendingUpdate t bc r) = Some r"
| "pendingCheck e = None"

definition pendingChecks :: "trace \<Rightarrow> (exn + bool) list" where
  "pendingChecks tr = List.map_filter pendingCheck tr"

text \<open>The data of the response when the retries are used up.\<close>

definition retriesReached :: json where
  "retriesReached =
     JObj [(''data'', JObj [(''errorType'', JStr ''DKG_CLIENT_ERROR''),
                            (''errorMessage'',
                             JStr ''Unable to get results. Max number of retries reached.'')])]"

text \<open>The off-chain publish and update calls, and the member names of a result.\<close>

fun isPublish :: "event \<Rightarrow> bool" where
  "isPublish (EvPublish ep po au a xs bn c t h r) = True"
| "isPublish e = False"

fun isUpdate :: "event \<Rightarrow> bool" where
  "isUpdate (EvUpdate ep po au a xs bn c t h r) = True"
| "isUpdate e = False"

fun keysOf :: "json \<Rightarrow> string list" where
  "keysOf (JObj kvs) = map fst kvs"
| "keysOf v = []"









text \<open>
  The events of \<open>k\<close> rounds of the wait in which the update is still pending: a sleep and
  a check answered with \<open>true\<close>, \<open>k\<close> times.
\<close>

definition pendingRounds :: "rat \<Rightarrow> int \<Rightarrow> blockchain \<Rightarrow> nat \<Rightarrow> trace" where
  "pendingRounds freq t bc k =
     concat (replicate k [EvSleep (freq * 1000), EvHasPendingUpdate t bc (Inr True)])"


section \<open>A concrete environment\<close>

text \<open>
  An environment to run the operations on: every validation passes, every call succeeds.
  The canonicaliser lists the members of the nodes as statements, the root and the hash
  render what they are applied to, so that distinct inputs give distinct outputs.
\<close>

definition demoBlockchain :: blockchain where
  "demoBlockchain = \<lparr> name = ''otp:2043'' \<rparr>"

definition demoCreateArguments :: createArguments where
  "demoCreateArguments =
     \<lparr> commonArguments.blockchain = demoBlockchain, endpoint = ''localhost'', port = 8900,
       maxNumberOfRetries = 5, frequency = 5, authToken = ''token'', hashFunctionId = 1,
       updateArguments.scoreFunctionId = None, updateArguments.tokenAmount = None,
       createArguments.epochsNum = 2, immutable = False \<rparr>"

definition demoUpdateArguments :: updateArguments where
  "demoUpdateArguments =
     \<lparr> commonArguments.blockchain = demoBlockchain, endpoint = ''localhost'', port = 8900,
       maxNumberOfRetries = 5, frequency = 5, authToken = ''token'', hashFunctionId = 1,
       updateArguments.scoreFunctionId = None, updateArguments.tokenAmount = None \<rparr>"

definition demoGetArguments :: getArguments where
  "demoGetArguments =
     \<lparr> commonArguments.blockchain = demoBlockchain, endpoint = ''localhost'', port = 8900,
       maxNumberOfRetries = 5, frequency = 5, authToken = ''token'', hashFunctionId = 1,
       state = ''LATEST'', contentType = ''public'', validate = True, outputFormat = ''n-quads'' \<rparr>"

definition demoAgreement :: agreementData where
  "demoAgreement =
     \<lparr> startTime = 1000, epochsNumber = 5, epochLength = 100,
       agreementData.tokenAmount = 30, updateTokenAmount = Some 5 \<rparr>"

definition demoStatement :: "string \<times> json \<Rightarrow> string" where
  "demoStatement kv = ''_:b <'' @ fst kv @ ''> '' @ [CHR 0x22] @ toStringInJoin (snd kv) @ [CHR 0x22] @ '' .''"

fun demoNodeStatements :: "json \<Rightarrow> string list" where
  "demoNodeStatements (JObj kvs) = map demoStatement kvs"
| "demoNodeStatements v = []"

definition demoFormatAssertion :: "json \<Rightarrow> exn + string list" where
  "demoFormatAssertion j =
     Inr (case optMember j ''@graph'' of
            JArr nodes \<Rightarrow> concat (map demoNodeStatements nodes)
          | _ \<Rightarrow> demoNodeStatements j)"

definition demoConstants :: constants where
  "demoConstants =
     \<lparr> CONTENT_TYPES_PUBLIC = ''public'',
       CONTENT_TYPES_PRIVATE = ''private'',
       OPERATIONS_STEP_STATUS_CREATE_ASSET_COMPLETED = ''CREATE_ASSET_COMPLETED'',
       GET_OUTPUT_FORMATS_N_QUADS = ''n-quads'',
       OPERATION_STATUSES_PENDING = ''PENDING'',
       OPERATION_STATUSES_COMPLETED = ''COMPLETED'',
       OPERATION_STATUSES_FAILED = ''FAILED'',
       DEFAULT_GET_LOCAL_STORE_RESULT_FREQUENCY = 1 / 2,
       PRIVATE_ASSERTION_PREDICATE = ''dkg:privateAssertionID'',
       QUERY_TYPES_CONSTRUCT = ''CONSTRUCT'',
       DEFAULT_PARAMETERS_GRAPH_LOCATION = ''LOCAL_KG'',
       DEFAULT_PARAMETERS_GRAPH_STATE = ''CURRENT'',
       ASSET_STATES_LATEST = ''LATEST'' \<rparr>"

definition demoBlockchainService :: blockchainService where
  "demoBlockchainService =
     \<lparr> getContractAddress = (\<lambda>tr n bc. Inr ''0xc0''),
       createAsset = (\<lambda>tr r bc. Inr 7),
       updateAsset = (\<lambda>tr t a sz tn cn amt bc. Inr ()),
       hasPendingUpdate = (\<lambda>tr t bc. Inr True),
       getUnfinalizedState = (\<lambda>tr t bc. Inr ''0xunfinalized''),
       getLatestAssertionId = (\<lambda>tr t bc. Inr ''0xlatest''),
       getAssertionIdByIndex = (\<lambda>tr t i bc. Inr ''0xfirst''),
       getAssertionSize = (\<lambda>tr a bc. Inr 100),
       getAgreementData = (\<lambda>tr a bc. Inr demoAgreement),
       getBlockchainTimestamp = (\<lambda>tr bc. Inr 1250),
       extendAssetStoringPeriod = (\<lambda>tr t n amt bc. Inr ()),
       blockchainService.addTokens = (\<lambda>tr t amt bc. Inr ()),
       blockchainService.addUpdateTokens = (\<lambda>tr t amt bc. Inr ()) \<rparr>"

definition demoNodeApiService :: nodeApiService where
  "demoNodeApiService =
     \<lparr> getBidSuggestion = (\<lambda>tr ep po au bn epochs sz c a h. Inr 50),
       localStore = (\<lambda>tr ep po au xs. Inr ''op-store''),
       getOperationResult = (\<lambda>tr ep po au op n f i. Inr \<lparr> status = ''COMPLETED'', data = JUndefined \<rparr>),
       publish = (\<lambda>tr ep po au a xs bn c t h. Inr ''op-publish''),
       nodeApiService.update = (\<lambda>tr ep po au a xs bn c t h. Inr ''op-update''),
       nodeApiService.get = (\<lambda>tr ep po au ual st h. Inr ''op-get''),
       query = (\<lambda>tr ep po au q ty repo. Inr ''op-query'') \<rparr>"

definition demoValidationService :: validationService where
  "demoValidationService =
     \<lparr> validateObjectType = (\<lambda>c. Inr ()),
       validateAssetCreate = (\<lambda>c a. Inr ()),
       validateAssetGet = (\<lambda>u a. Inr ()),
       validateAssetUpdate = (\<lambda>c a. Inr ()),
       validateWaitAssetUpdateFinalization = (\<lambda>u bc. Inr ()),
       validateExtendAssetStoringPeriod = (\<lambda>u n amt bc. Inr ()),
       validateAddTokens = (\<lambda>u amt bc. Inr ()) \<rparr>"

definition demoInputService :: inputService where
  "demoInputService =
     \<lparr> getAssetCreateArguments = (\<lambda>opts. Inr demoCreateArguments),
       getAssetGetArguments = (\<lambda>opts. Inr demoGetArguments),
       getAssetUpdateArguments = (\<lambda>opts. Inr demoUpdateArguments),
       getBlockchain = (\<lambda>opts. Inr demoBlockchain),
       getFrequency = (\<lambda>opts. Inr 5),
       getMaxNumberOfRetries = (\<lambda>opts. Inr 0),
       getTokenAmount = (\<lambda>opts. Inr None),
       getEndpoint = (\<lambda>opts. Inr ''localhost''),
       getPort = (\<lambda>opts. Inr 8900),
       getAuthToken = (\<lambda>opts. Inr ''token''),
       getHashFunctionId = (\<lambda>opts. Inr 1) \<rparr>"

definition demoAssertionTools :: assertionTools where
  "demoAssertionTools =
     \<lparr> formatAssertion = demoFormatAssertion,
       calculateRoot = (\<lambda>a. Inr (''root('' @ toStringInJoin a @ '')'')),
       getAssertionSizeInBytes = (\<lambda>a. int (length (concat a))),
       getAssertionTriplesNumber = (\<lambda>a. int (length a)),
       getAssertionChunksNumber = (\<lambda>a. 1) \<rparr>"

definition demoEthers :: ethers where
  "demoEthers =
     \<lparr> solidityPacked = (\<lambda>tys vs. Inr (''packed('' @ joinWith '','' (map toStringInJoin vs) @ '')'')),
       sha256 = (\<lambda>x. Inr (''sha256('' @ x @ '')'')) \<rparr>"

definition demoUtilities :: utilities where
  "demoUtilities =
     \<lparr> deriveUAL = (\<lambda>bn c t. ''did:dkg:'' @ bn @ ''/'' @ c @ ''/'' @ toStringInJoin (JNum t)),
       resolveUAL = (\<lambda>ual. Inr \<lparr> resolvedUAL.contract = ''0xc0'', resolvedUAL.tokenId = 7 \<rparr>),
       toNQuads = (\<lambda>d f. Inr []),
       toJSONLD = (\<lambda>s. Inr (JStr s)),
       deriveRepository = (\<lambda>l s. l) \<rparr>"

definition demoEnv :: env where
  "demoEnv =
     \<lparr> nodeApiService = demoNodeApiService,
       validationService = demoValidationService,
       blockchainService = demoBlockchainService,
       inputService = demoInputService,
       assertionTools = demoAssertionTools,
       ethers = demoEthers,
       utilities = demoUtilities,
       constants = demoConstants \<rparr>"

definition demoUAL :: string where
  "demoUAL = ''did:dkg:otp/0xc0/7''"

text \<open>The events of a bid estimation in this environment.\<close>

definition demoBidEvents :: "int \<Rightarrow> jsnum \<Rightarrow> string \<Rightarrow> int \<Rightarrow> trace" where
  "demoBidEvents now epochs stateId quote =
     [EvGetAssertionIdByIndex 7 0 demoBlockchain (Inr ''0xfirst''),
      EvGetAgreementData ''sha256(packed(0xc0,7,packed(0xc0,0xfirst)))'' demoBlockchain (Inr demoAgreement),
      EvGetBlockchainTimestamp demoBlockchain (Inr now),
      EvGetBidSuggestion ''localhost'' 8900 ''token'' ''otp'' epochs 100 ''0xc0'' stateId 1 (Inr quote)]"

text \<open>The same environment at a time when the agreement's five epochs are over.\<close>

definition expiredEnv :: env where
  "expiredEnv =
     demoEnv\<lparr>blockchainService := demoBlockchainService\<lparr>getBlockchainTimestamp := (\<lambda>tr bc. Inr 1700)\<rparr>\<rparr>"

text \<open>
  The agreement identifier as the spec words it: the hash of contract, token and a keyword
  that is itself the hash of contract and first root.
\<close>

definition specAgreementId :: "env \<Rightarrow> string \<Rightarrow> int \<Rightarrow> string \<Rightarrow> exn + string" where
  "specAgreementId E c t firstRoot =
     (case solidityPacked (ethers E) [''address'', ''bytes32''] [JStr c, JStr firstRoot] of
        Inl e \<Rightarrow> Inl e
      | Inr inner \<Rightarrow>
          (case sha256 (ethers E) inner of
             Inl e \<Rightarrow> Inl e
           | Inr keyword \<Rightarrow>
               (case solidityPacked (ethers E) [''address'', ''uint256'', ''bytes'']
                       [JStr c, JNum t, JStr keyword] of
                  Inl e \<Rightarrow> Inl e
                | Inr packed \<Rightarrow> sha256 (ethers E) packed)))"

text \<open>The same environment with a node whose quote is below the tokens already committed.\<close>

definition fundedEnv :: env where
  "fundedEnv =
     demoEnv\<lparr>nodeApiService :=
               demoNodeApiService\<lparr>getBidSuggestion := (\<lambda>tr ep po au bn epochs sz c a h. Inr 20)\<rparr>\<rparr>"


text \<open>The same environment with a node on which the local store fails.\<close>

definition failingStoreEnv :: env where
  "failingStoreEnv =
     demoEnv\<lparr>nodeApiService :=
               demoNodeApiService\<lparr>getOperationResult :=
                 (\<lambda>tr ep po au op n f i.
                    Inr \<lparr> status = (if op = LOCAL_STORE then ''FAILED'' else ''COMPLETED''),
                          data = JUndefined \<rparr>)\<rparr>\<rparr>"

definition failedStore :: operationResult where
  "failedStore = \<lparr> status = ''FAILED'', data = JUndefined \<rparr>"

text \<open>A content with both partitions, and one without either key.\<close>

definition demoContent :: json where
  "demoContent =
     JObj [(''public'', JObj [(''name'', JStr ''A'')]),
           (''private'', JObj [(''secret'', JStr ''S'')])]"

definition plainContent :: "(string \<times> json) list" where
  "plainContent = [(''name'', JStr ''A'')]"








text \<open>
  The same environment with a retry budget of three and an update that is pending at the
  first two checks and settled at the third.
\<close>

definition settlingEnv :: env where
  "settlingEnv =
     demoEnv\<lparr>blockchainService :=
               demoBlockchainService\<lparr>hasPendingUpdate := (\<lambda>tr t bc. Inr (length (pendingChecks tr) < 2))\<rparr>,
             inputService := demoInputService\<lparr>getMaxNumberOfRetries := (\<lambda>opts. Inr 3)\<rparr>\<rparr>"












section \<open>Properties\<close>

lemmas io_defs = ret_def pure_def andThen_def await_def sleepForMilliseconds_def

lemmas call_defs =
  chain_getContractAddress_def chain_createAsset_def chain_updateAsset_def
  chain_hasPendingUpdate_def chain_getUnfinalizedState_def chain_getLatestAssertionId_def
  chain_getAssertionIdByIndex_def chain_getAssertionSize_def chain_getAgreementData_def
  chain_getBlockchainTimestamp_def chain_extendAssetStoringPeriod_def chain_addTokens_def
  chain_addUpdateTokens_def node_getBidSuggestion_def node_localStore_def
  node_getOperationResult_def node_publish_def node_update_def node_get_def node_query_def
  hook_afterHook_def

lemmas demo_defs =
  demoEnv_def demoNodeApiService_def demoValidationService_def demoBlockchainService_def
  demoInputService_def demoAssertionTools_def demoEthers_def demoUtilities_def demoConstants_def
  demoBlockchain_def demoCreateArguments_def demoUpdateArguments_def demoGetArguments_def
  demoAgreement_def demoFormatAssertion_def demoStatement_def

lemmas demo_eval =
  io_defs call_defs demo_defs startsWith_def floorDiv_def demoUAL_def demoBidEvents_def

subsection \<open>The update bid suggestion\<close>

lemma floorDiv_floor:
  "b \<noteq> 0 \<Longrightarrow> minus n (floorDiv a b) = Num (n - \<lfloor>(of_int a :: real) / of_int b\<rfloor>)"
  by (simp add: floorDiv_def floor_divide_of_int_eq)

lemma demo_bid_run:
  "getUpdateBidSuggestion demoEnv demoUAL demoBlockchain ''localhost'' 8900 ''token'' ''0xstate'' 100 1 []
   = (Inr 15, demoBidEvents 1250 (Num 3) ''0xstate'' 50)"
  by (simp add: getUpdateBidSuggestion_def demo_eval)

text \<open>
  C3. When the chain and the node answer, the estimation reads the first assertion root,
  the agreement and the chain time \<open>now\<close>, asks the node for a quote, and returns exactly
  \<open>max (quote - (tokenAmount + updateTokenAmount)) 0\<close>, an absent \<open>updateTokenAmount\<close>
  counting as 0: the amount is never negative. The quote is asked for
  \<open>epochsNumber - floor ((now - startTime) / epochLength)\<close> epochs (the quotient is
  defined when the epoch length is not 0).
\<close>

theorem bid_suggestion_value:
  fixes u :: resolvedUAL
  assumes "resolveUAL (utilities E) UAL = Inr u"
    and "getAssertionIdByIndex (blockchainService E) tr (resolvedUAL.tokenId u) 0 bc = Inr firstId"
    and "solidityPacked (ethers E) [''address'', ''bytes32'']
           [JStr (resolvedUAL.contract u), JStr firstId] = Inr keyword"
    and "solidityPacked (ethers E) [''address'', ''uint256'', ''bytes'']
           [JStr (resolvedUAL.contract u), JNum (resolvedUAL.tokenId u), JStr keyword] = Inr packed"
    and "sha256 (ethers E) packed = Inr agId"
    and "getAgreementData (blockchainService E)
           (tr @ [EvGetAssertionIdByIndex (resolvedUAL.tokenId u) 0 bc (Inr firstId)]) agId bc = Inr ag"
    and "getBlockchainTimestamp (blockchainService E)
           (tr @ [EvGetAssertionIdByIndex (resolvedUAL.tokenId u) 0 bc (Inr firstId),
                  EvGetAgreementData agId bc (Inr ag)]) bc = Inr now"
    and "getBidSuggestion (nodeApiService E)
           (tr @ [EvGetAssertionIdByIndex (resolvedUAL.tokenId u) 0 bc (Inr firstId),
                  EvGetAgreementData agId bc (Inr ag),
                  EvGetBlockchainTimestamp bc (Inr now)])
           ep po au (if startsWith (name bc) ''otp'' then ''otp'' else name bc)
           (minus (epochsNumber ag) (floorDiv (now - startTime ag) (epochLength ag)))
           sz (resolvedUAL.contract u) stateId hashFn = Inr quote"
  shows "getUpdateBidSuggestion E UAL bc ep po au stateId sz hashFn tr
         = (Inr (max (quote - (agreementData.tokenAmount ag
                               + (case updateTokenAmount ag of None \<Rightarrow> 0 | Some v \<Rightarrow> v))) 0),
            tr @ [EvGetAssertionIdByIndex (resolvedUAL.tokenId u) 0 bc (Inr firstId),
                  EvGetAgreementData agId bc (Inr ag),
                  EvGetBlockchainTimestamp bc (Inr now),
                  EvGetBidSuggestion ep po au (if startsWith (name bc) ''otp'' then ''otp'' else name bc)
                    (minus (epochsNumber ag) (floorDiv (now - startTime ag) (epochLength ag)))
                    sz (resolvedUAL.contract u) stateId hashFn (Inr quote)])
       \<and> (epochLength ag \<noteq> 0 \<longrightarrow>
            minus (epochsNumber ag) (floorDiv (now - startTime ag) (epochLength ag))
            = Num (epochsNumber ag - \<lfloor>(of_int (now - startTime ag) :: real) / of_int (epochLength ag)\<rfloor>))
       \<and> 0 \<le> max (quote - (agreementData.tokenAmount ag
                               + (case updateTokenAmount ag of None \<Rightarrow> 0 | Some v \<Rightarrow> v))) 0"
proof -
  have run: "getUpdateBidSuggestion E UAL bc ep po au stateId sz hashFn tr
         = (Inr (max (quote - (agreementData.tokenAmount ag
                               + (case updateTokenAmount ag of None \<Rightarrow> 0 | Some v \<Rightarrow> v))) 0),
            tr @ [EvGetAssertionIdByIndex (resolvedUAL.tokenId u) 0 bc (Inr firstId),
                  EvGetAgreementData agId bc (Inr ag),
                  EvGetBlockchainTimestamp bc (Inr now),
                  EvGetBidSuggestion ep po au (if startsWith (name bc) ''otp'' then ''otp'' else name bc)
                    (minus (epochsNumber ag) (floorDiv (now - startTime ag) (epochLength ag)))
                    sz (resolvedUAL.contract u) stateId hashFn (Inr quote)])"
    using assms
    unfolding getUpdateBidSuggestion_def io_defs call_defs Let_def
    by (simp add: max_def)
  have fl: "epochLength ag \<noteq> 0 \<longrightarrow>
            minus (epochsNumber ag) (floorDiv (now - startTime ag) (epochLength ag))
            = Num (epochsNumber ag - \<lfloor>(of_int (now - startTime ag) :: real) / of_int (epochLength ag)\<rfloor>)"
    using floorDiv_floor [of "epochLength ag" "epochsNumber ag" "now - startTime ag"] by blast
  from run fl show ?thesis by simp
qed

theorem bid_suggestion_value_witness:
  "resolveUAL (utilities demoEnv) demoUAL
     = Inr \<lparr> resolvedUAL.contract = ''0xc0'', resolvedUAL.tokenId = 7 \<rparr>
   \<and> getAssertionIdByIndex (blockchainService demoEnv) [] 7 0 demoBlockchain = Inr ''0xfirst''
   \<and> solidityPacked (ethers demoEnv) [''address'', ''bytes32''] [JStr ''0xc0'', JStr ''0xfirst'']
       = Inr ''packed(0xc0,0xfirst)''
   \<and> solidityPacked (ethers demoEnv) [''address'', ''uint256'', ''bytes'']
         [JStr ''0xc0'', JNum 7, JStr ''packed(0xc0,0xfirst)'']
       = Inr ''packed(0xc0,7,packed(0xc0,0xfirst))''
   \<and> sha256 (ethers demoEnv) ''packed(0xc0,7,packed(0xc0,0xfirst))''
       = Inr ''sha256(packed(0xc0,7,packed(0xc0,0xfirst)))''
   \<and> epochLength demoAgreement \<noteq> 0
   \<and> agreementData.tokenAmount demoAgreement = 30 \<and> updateTokenAmount demoAgreement = Some 5
   \<and> getUpdateBidSuggestion demoEnv demoUAL demoBlockchain ''localhost'' 8900 ''token'' ''0xstate'' 100 1 []
       = (Inr 15,
          [EvGetAssertionIdByIndex 7 0 demoBlockchain (Inr ''0xfirst''),
           EvGetAgreementData ''sha256(packed(0xc0,7,packed(0xc0,0xfirst)))'' demoBlockchain (Inr demoAgreement),
           EvGetBlockchainTimestamp demoBlockchain (Inr 1250),
           EvGetBidSuggestion ''localhost'' 8900 ''token'' ''otp'' (Num 3) 100 ''0xc0'' ''0xstate'' 1 (Inr 50)])
   \<and> Num 3 = Num (epochsNumber demoAgreement
                   - \<lfloor>(of_int (1250 - startTime demoAgreement) :: real) / of_int (epochLength demoAgreement)\<rfloor>)
   \<and> getUpdateBidSuggestion fundedEnv demoUAL demoBlockchain ''localhost'' 8900 ''token'' ''0xstate'' 100 1 []
       = (Inr 0,
          [EvGetAssertionIdByIndex 7 0 demoBlockchain (Inr ''0xfirst''),
           EvGetAgreementData ''sha256(packed(0xc0,7,packed(0xc0,0xfirst)))'' demoBlockchain (Inr demoAgreement),
           EvGetBlockchainTimestamp demoBlockchain (Inr 1250),
           EvGetBidSuggestion ''localhost'' 8900 ''token'' ''otp'' (Num 3) 100 ''0xc0'' ''0xstate'' 1 (Inr 20)])
   \<and> max (20 - (agreementData.tokenAmount demoAgreement
                 + (case updateTokenAmount demoAgreement of None \<Rightarrow> 0 | Some v \<Rightarrow> v))) (0::int) = 0"
proof -
  let ?u = "\<lparr> resolvedUAL.contract = ''0xc0'', resolvedUAL.tokenId = 7 \<rparr>"
  have d1: "resolveUAL (utilities demoEnv) demoUAL = Inr ?u"
    by (simp add: demoEnv_def demo_defs)
  have d2: "getAssertionIdByIndex (blockchainService demoEnv) [] (resolvedUAL.tokenId ?u) 0 demoBlockchain
            = Inr ''0xfirst''"
    by (simp add: demoEnv_def demo_defs)
  have d3: "solidityPacked (ethers demoEnv) [''address'', ''bytes32'']
              [JStr (resolvedUAL.contract ?u), JStr ''0xfirst''] = Inr ''packed(0xc0,0xfirst)''"
    by (simp add: demoEnv_def demo_defs)
  have d4: "solidityPacked (ethers demoEnv) [''address'', ''uint256'', ''bytes'']
              [JStr (resolvedUAL.contract ?u), JNum (resolvedUAL.tokenId ?u), JStr ''packed(0xc0,0xfirst)'']
            = Inr ''packed(0xc0,7,packed(0xc0,0xfirst))''"
    by (simp add: demoEnv_def demo_defs)
  have d5: "sha256 (ethers demoEnv) ''packed(0xc0,7,packed(0xc0,0xfirst))''
            = Inr ''sha256(packed(0xc0,7,packed(0xc0,0xfirst)))''"
    by (simp add: demoEnv_def demo_defs)
  have d6: "getAgreementData (blockchainService demoEnv)
              ([] @ [EvGetAssertionIdByIndex (resolvedUAL.tokenId ?u) 0 demoBlockchain (Inr ''0xfirst'')])
              ''sha256(packed(0xc0,7,packed(0xc0,0xfirst)))'' demoBlockchain = Inr demoAgreement"
    by (simp add: demoEnv_def demoEnv_def demoBlockchainService_def)
  have d7: "getBlockchainTimestamp (blockchainService demoEnv)
              ([] @ [EvGetAssertionIdByIndex (resolvedUAL.tokenId ?u) 0 demoBlockchain (Inr ''0xfirst''),
                     EvGetAgreementData ''sha256(packed(0xc0,7,packed(0xc0,0xfirst)))'' demoBlockchain
                       (Inr demoAgreement)])
              demoBlockchain = Inr 1250"
    by (simp add: demoEnv_def demoEnv_def demoBlockchainService_def)
  have d8: "getBidSuggestion (nodeApiService demoEnv)
               ([] @ [EvGetAssertionIdByIndex (resolvedUAL.tokenId ?u) 0 demoBlockchain (Inr ''0xfirst''),
                      EvGetAgreementData ''sha256(packed(0xc0,7,packed(0xc0,0xfirst)))'' demoBlockchain
                        (Inr demoAgreement),
                      EvGetBlockchainTimestamp demoBlockchain (Inr 1250)])
               ''localhost'' 8900 ''token''
               (if startsWith (name demoBlockchain) ''otp'' then ''otp'' else name demoBlockchain)
               (minus (epochsNumber demoAgreement)
                  (floorDiv (1250 - startTime demoAgreement) (epochLength demoAgreement)))
               100 (resolvedUAL.contract ?u) ''0xstate'' 1 = Inr 50"
    by (simp add: demoEnv_def demoEnv_def demoNodeApiService_def)
  have f1: "resolveUAL (utilities fundedEnv) demoUAL = Inr ?u"
    by (simp add: fundedEnv_def demo_defs)
  have f2: "getAssertionIdByIndex (blockchainService fundedEnv) [] (resolvedUAL.tokenId ?u) 0 demoBlockchain
            = Inr ''0xfirst''"
    by (simp add: fundedEnv_def demo_defs)
  have f3: "solidityPacked (ethers fundedEnv) [''address'', ''bytes32'']
              [JStr (resolvedUAL.contract ?u), JStr ''0xfirst''] = Inr ''packed(0xc0,0xfirst)''"
    by (simp add: fundedEnv_def demo_defs)
  have f4: "solidityPacked (ethers fundedEnv) [''address'', ''uint256'', ''bytes'']
              [JStr (resolvedUAL.contract ?u), JNum (resolvedUAL.tokenId ?u), JStr ''packed(0xc0,0xfirst)'']
            = Inr ''packed(0xc0,7,packed(0xc0,0xfirst))''"
    by (simp add: fundedEnv_def demo_defs)
  have f5: "sha256 (ethers fundedEnv) ''packed(0xc0,7,packed(0xc0,0xfirst))''
            = Inr ''sha256(packed(0xc0,7,packed(0xc0,0xfirst)))''"
    by (simp add: fundedEnv_def demo_defs)
  have f6: "getAgreementData (blockchainService fundedEnv)
              ([] @ [EvGetAssertionIdByIndex (resolvedUAL.tokenId ?u) 0 demoBlockchain (Inr ''0xfirst'')])
              ''sha256(packed(0xc0,7,packed(0xc0,0xfirst)))'' demoBlockchain = Inr demoAgreement"
    by (simp add: fundedEnv_def demoEnv_def demoBlockchainService_def)
  have f7: "getBlockchainTimestamp (blockchainService fundedEnv)
              ([] @ [EvGetAssertionIdByIndex (resolvedUAL.tokenId ?u) 0 demoBlockchain (Inr ''0xfirst''),
                     EvGetAgreementData ''sha256(packed(0xc0,7,packed(0xc0,0xfirst)))'' demoBlockchain
                       (Inr demoAgreement)])
              demoBlockchain = Inr 1250"
    by (simp add: fundedEnv_def demoEnv_def demoBlockchainService_def)
  have f8: "getBidSuggestion (nodeApiService fundedEnv)
               ([] @ [EvGetAssertionIdByIndex (resolvedUAL.tokenId ?u) 0 demoBlockchain (Inr ''0xfirst''),
                      EvGetAgreementData ''sha256(packed(0xc0,7,packed(0xc0,0xfirst)))'' demoBlockchain
                        (Inr demoAgreement),
                      EvGetBlockchainTimestamp demoBlockchain (Inr 1250)])
               ''localhost'' 8900 ''token''
               (if startsWith (name demoBlockchain) ''otp'' then ''otp'' else name demoBlockchain)
               (minus (epochsNumber demoAgreement)
                  (floorDiv (1250 - startTime demoAgreement) (epochLength demoAgreement)))
               100 (resolvedUAL.contract ?u) ''0xstate'' 1 = Inr 20"
    by (simp add: fundedEnv_def demoEnv_def demoNodeApiService_def)
  have ag: "epochLength demoAgreement \<noteq> 0" "agreementData.tokenAmount demoAgreement = 30"
    "updateTokenAmount demoAgreement = Some 5" "epochsNumber demoAgreement = 5"
    "startTime demoAgreement = 1000" "epochLength demoAgreement = 100"
    by (simp_all add: demoAgreement_def)
  have otp: "(if startsWith (name demoBlockchain) ''otp'' then ''otp'' else name demoBlockchain) = ''otp''"
    by (simp add: demoBlockchain_def startsWith_def)
  have epochs: "minus (epochsNumber demoAgreement)
                  (floorDiv (1250 - startTime demoAgreement) (epochLength demoAgreement)) = Num 3"
    by (simp add: ag floorDiv_def)
  from bid_suggestion_value [OF d1 d2 d3 d4 d5 d6 d7 d8]
  have positive:
    "getUpdateBidSuggestion demoEnv demoUAL demoBlockchain ''localhost'' 8900 ''token'' ''0xstate'' 100 1 []
       = (Inr 15,
          [EvGetAssertionIdByIndex 7 0 demoBlockchain (Inr ''0xfirst''),
           EvGetAgreementData ''sha256(packed(0xc0,7,packed(0xc0,0xfirst)))'' demoBlockchain (Inr demoAgreement),
           EvGetBlockchainTimestamp demoBlockchain (Inr 1250),
           EvGetBidSuggestion ''localhost'' 8900 ''token'' ''otp'' (Num 3) 100 ''0xc0'' ''0xstate'' 1 (Inr 50)])"
    "Num 3 = Num (epochsNumber demoAgreement
                   - \<lfloor>(of_int (1250 - startTime demoAgreement) :: real) / of_int (epochLength demoAgreement)\<rfloor>)"
    using ag(1) by (simp_all add: otp epochs ag(2,3))
  from bid_suggestion_value [OF f1 f2 f3 f4 f5 f6 f7 f8]
  have clamped:
    "getUpdateBidSuggestion fundedEnv demoUAL demoBlockchain ''localhost'' 8900 ''token'' ''0xstate'' 100 1 []
       = (Inr 0,
          [EvGetAssertionIdByIndex 7 0 demoBlockchain (Inr ''0xfirst''),
           EvGetAgreementData ''sha256(packed(0xc0,7,packed(0xc0,0xfirst)))'' demoBlockchain (Inr demoAgreement),
           EvGetBlockchainTimestamp demoBlockchain (Inr 1250),
           EvGetBidSuggestion ''localhost'' 8900 ''token'' ''otp'' (Num 3) 100 ''0xc0'' ''0xstate'' 1 (Inr 20)])"
    by (simp add: otp epochs ag(2,3))
  have zero: "max (20 - (agreementData.tokenAmount demoAgreement
                 + (case updateTokenAmount demoAgreement of None \<Rightarrow> 0 | Some v \<Rightarrow> v))) (0::int) = 0"
    by (simp add: ag)
  from d1 d2 d3 d4 d5 ag(1,2,3) positive clamped zero show ?thesis
    by simp
qed

subsection \<open>The agreement identifier\<close>

text \<open>
  C2 (as amended). The agreement identifier the estimation reads the agreement with is the
  SHA-256 hash of the packed encoding of the contract address, the token and a keyword, where
  the keyword is the packed encoding of the contract address and the asset's first assertion
  root (the root at index 0): the keyword is the encoding itself, it is not hashed.
\<close>

theorem agreement_id_derivation:
  assumes "getUpdateBidSuggestion E UAL bc ep po au stateId sz hashFn tr = (out, tr @ evs)"
    and "EvGetAgreementData agId bc' r \<in> set evs"
  shows "\<exists>(u::resolvedUAL) firstId keyword packed.
     resolveUAL (utilities E) UAL = Inr u
     \<and> EvGetAssertionIdByIndex (resolvedUAL.tokenId u) 0 bc (Inr firstId) \<in> set evs
     \<and> solidityPacked (ethers E) [''address'', ''bytes32'']
          [JStr (resolvedUAL.contract u), JStr firstId] = Inr keyword
     \<and> solidityPacked (ethers E) [''address'', ''uint256'', ''bytes'']
          [JStr (resolvedUAL.contract u), JNum (resolvedUAL.tokenId u), JStr keyword] = Inr packed
     \<and> sha256 (ethers E) packed = Inr agId"
  using assms
  unfolding getUpdateBidSuggestion_def io_defs call_defs Let_def
  by (auto split: sum.splits prod.splits)

theorem agreement_id_derivation_witness:
  "getUpdateBidSuggestion demoEnv demoUAL demoBlockchain ''localhost'' 8900 ''token'' ''0xstate'' 100 1 []
     = (Inr 15, [] @ demoBidEvents 1250 (Num 3) ''0xstate'' 50)
   \<and> EvGetAgreementData ''sha256(packed(0xc0,7,packed(0xc0,0xfirst)))'' demoBlockchain (Inr demoAgreement)
       \<in> set (demoBidEvents 1250 (Num 3) ''0xstate'' 50)
   \<and> (\<exists>(u::resolvedUAL) firstId keyword packed.
     resolveUAL (utilities demoEnv) demoUAL = Inr u
     \<and> EvGetAssertionIdByIndex (resolvedUAL.tokenId u) 0 demoBlockchain (Inr firstId)
         \<in> set (demoBidEvents 1250 (Num 3) ''0xstate'' 50)
     \<and> solidityPacked (ethers demoEnv) [''address'', ''bytes32'']
          [JStr (resolvedUAL.contract u), JStr firstId] = Inr keyword
     \<and> solidityPacked (ethers demoEnv) [''address'', ''uint256'', ''bytes'']
          [JStr (resolvedUAL.contract u), JNum (resolvedUAL.tokenId u), JStr keyword] = Inr packed
     \<and> sha256 (ethers demoEnv) packed = Inr ''sha256(packed(0xc0,7,packed(0xc0,0xfirst)))'')"
proof -
  have run: "getUpdateBidSuggestion demoEnv demoUAL demoBlockchain ''localhost'' 8900 ''token'' ''0xstate'' 100 1 []
     = (Inr 15, [] @ demoBidEvents 1250 (Num 3) ''0xstate'' 50)"
    using demo_bid_run by simp
  have ev: "EvGetAgreementData ''sha256(packed(0xc0,7,packed(0xc0,0xfirst)))'' demoBlockchain (Inr demoAgreement)
       \<in> set (demoBidEvents 1250 (Num 3) ''0xstate'' 50)"
    by (simp add: demoBidEvents_def)
  show ?thesis
    by (intro conjI run ev agreement_id_derivation [OF run ev])
qed

text \<open>
  The claim as the spec words it fails: in the concrete environment the identifier the
  agreement is read with is not the one computed with a hashed keyword.
\<close>

theorem agreement_id_counterexample:
  "EvGetAgreementData ''sha256(packed(0xc0,7,packed(0xc0,0xfirst)))'' demoBlockchain (Inr demoAgreement)
     \<in> set (snd (getUpdateBidSuggestion demoEnv demoUAL demoBlockchain ''localhost'' 8900 ''token''
                    ''0xstate'' 100 1 []))
   \<and> getAssertionIdByIndex (blockchainService demoEnv) [] 7 0 demoBlockchain = Inr ''0xfirst''
   \<and> specAgreementId demoEnv ''0xc0'' 7 ''0xfirst'' = Inr ''sha256(packed(0xc0,7,sha256(packed(0xc0,0xfirst))))''
   \<and> specAgreementId demoEnv ''0xc0'' 7 ''0xfirst'' \<noteq> Inr ''sha256(packed(0xc0,7,packed(0xc0,0xfirst)))''"
proof -
  have "EvGetAgreementData ''sha256(packed(0xc0,7,packed(0xc0,0xfirst)))'' demoBlockchain (Inr demoAgreement)
     \<in> set (snd (getUpdateBidSuggestion demoEnv demoUAL demoBlockchain ''localhost'' 8900 ''token''
                    ''0xstate'' 100 1 []))"
    by (simp add: demo_bid_run demoBidEvents_def)
  moreover have "getAssertionIdByIndex (blockchainService demoEnv) [] 7 0 demoBlockchain = Inr ''0xfirst''"
    by (simp add: demo_defs)
  moreover have "specAgreementId demoEnv ''0xc0'' 7 ''0xfirst''
      = Inr ''sha256(packed(0xc0,7,sha256(packed(0xc0,0xfirst))))''"
    by (simp add: specAgreementId_def demo_defs)
  ultimately show ?thesis by simp
qed

subsection \<open>An agreement without remaining epochs\<close>

text \<open>
  C4 (as amended). When the remaining-epoch count is not positive the estimation does not
  fail on its own: once the agreement and the chain time are read, the node is asked for a
  quote for that non-positive number of epochs, and the outcome is the node's error if it
  fails and \<open>max (quote - committed) 0\<close> otherwise.
\<close>

theorem expired_agreement_is_quoted:
  fixes u :: resolvedUAL
  assumes "resolveUAL (utilities E) UAL = Inr u"
    and "getAssertionIdByIndex (blockchainService E) tr (resolvedUAL.tokenId u) 0 bc = Inr firstId"
    and "solidityPacked (ethers E) [''address'', ''bytes32'']
           [JStr (resolvedUAL.contract u), JStr firstId] = Inr keyword"
    and "solidityPacked (ethers E) [''address'', ''uint256'', ''bytes'']
           [JStr (resolvedUAL.contract u), JNum (resolvedUAL.tokenId u), JStr keyword] = Inr packed"
    and "sha256 (ethers E) packed = Inr agId"
    and "getAgreementData (blockchainService E)
           (tr @ [EvGetAssertionIdByIndex (resolvedUAL.tokenId u) 0 bc (Inr firstId)]) agId bc = Inr ag"
    and "getBlockchainTimestamp (blockchainService E)
           (tr @ [EvGetAssertionIdByIndex (resolvedUAL.tokenId u) 0 bc (Inr firstId),
                  EvGetAgreementData agId bc (Inr ag)]) bc = Inr now"
    and "epochLength ag \<noteq> 0"
    and "epochsNumber ag - (now - startTime ag) div epochLength ag \<le> 0"
    and "getBidSuggestion (nodeApiService E)
           (tr @ [EvGetAssertionIdByIndex (resolvedUAL.tokenId u) 0 bc (Inr firstId),
                  EvGetAgreementData agId bc (Inr ag),
                  EvGetBlockchainTimestamp bc (Inr now)])
           ep po au (if startsWith (name bc) ''otp'' then ''otp'' else name bc)
           (Num (epochsNumber ag - (now - startTime ag) div epochLength ag))
           sz (resolvedUAL.contract u) stateId hashFn = answer"
  shows "getUpdateBidSuggestion E UAL bc ep po au stateId sz hashFn tr
         = ((case answer of
               Inl e \<Rightarrow> Inl e
             | Inr quote \<Rightarrow>
                 Inr (max (quote - (agreementData.tokenAmount ag
                                    + (case updateTokenAmount ag of None \<Rightarrow> 0 | Some v \<Rightarrow> v))) 0)),
            tr @ [EvGetAssertionIdByIndex (resolvedUAL.tokenId u) 0 bc (Inr firstId),
                  EvGetAgreementData agId bc (Inr ag),
                  EvGetBlockchainTimestamp bc (Inr now),
                  EvGetBidSuggestion ep po au (if startsWith (name bc) ''otp'' then ''otp'' else name bc)
                    (Num (epochsNumber ag - (now - startTime ag) div epochLength ag))
                    sz (resolvedUAL.contract u) stateId hashFn answer])"
  using assms
  unfolding getUpdateBidSuggestion_def io_defs call_defs Let_def
  by (auto split: sum.splits prod.splits simp: floorDiv_def max_def)

lemma expired_bid_run:
  "getUpdateBidSuggestion expiredEnv demoUAL demoBlockchain ''localhost'' 8900 ''token'' ''0xstate'' 100 1 []
   = (Inr 15, demoBidEvents 1700 (Num (- 2)) ''0xstate'' 50)"
  by (simp add: getUpdateBidSuggestion_def demo_eval expiredEnv_def)

text \<open>
  The claim as stated fails: with -2 epochs left the estimation returns an amount, after
  asking for a quote for -2 epochs.
\<close>

theorem expired_agreement_counterexample:
  "epochsNumber demoAgreement - (1700 - startTime demoAgreement) div epochLength demoAgreement = - 2
   \<and> getUpdateBidSuggestion expiredEnv demoUAL demoBlockchain ''localhost'' 8900 ''token'' ''0xstate'' 100 1 []
       = (Inr 15,
          [EvGetAssertionIdByIndex 7 0 demoBlockchain (Inr ''0xfirst''),
           EvGetAgreementData ''sha256(packed(0xc0,7,packed(0xc0,0xfirst)))'' demoBlockchain (Inr demoAgreement),
           EvGetBlockchainTimestamp demoBlockchain (Inr 1700),
           EvGetBidSuggestion ''localhost'' 8900 ''token'' ''otp'' (Num (- 2)) 100 ''0xc0'' ''0xstate'' 1 (Inr 50)])"
  using expired_bid_run by (simp add: demoBidEvents_def demoAgreement_def)

theorem expired_agreement_is_quoted_witness:
  "resolveUAL (utilities expiredEnv) demoUAL
     = Inr \<lparr> resolvedUAL.contract = ''0xc0'', resolvedUAL.tokenId = 7 \<rparr>
   \<and> getAssertionIdByIndex (blockchainService expiredEnv) [] 7 0 demoBlockchain = Inr ''0xfirst''
   \<and> solidityPacked (ethers expiredEnv) [''address'', ''bytes32''] [JStr ''0xc0'', JStr ''0xfirst'']
       = Inr ''packed(0xc0,0xfirst)''
   \<and> solidityPacked (ethers expiredEnv) [''address'', ''uint256'', ''bytes'']
         [JStr ''0xc0'', JNum 7, JStr ''packed(0xc0,0xfirst)'']
       = Inr ''packed(0xc0,7,packed(0xc0,0xfirst))''
   \<and> sha256 (ethers expiredEnv) ''packed(0xc0,7,packed(0xc0,0xfirst))''
       = Inr ''sha256(packed(0xc0,7,packed(0xc0,0xfirst)))''
   \<and> epochLength demoAgreement \<noteq> 0
   \<and> epochsNumber demoAgreement - (1700 - startTime demoAgreement) div epochLength demoAgreement \<le> 0
   \<and> getUpdateBidSuggestion expiredEnv demoUAL demoBlockchain ''localhost'' 8900 ''token'' ''0xstate'' 100 1 []
       = (Inr (max (50 - (agreementData.tokenAmount demoAgreement
                          + (case updateTokenAmount demoAgreement of None \<Rightarrow> 0 | Some v \<Rightarrow> v))) 0),
          [EvGetAssertionIdByIndex 7 0 demoBlockchain (Inr ''0xfirst''),
           EvGetAgreementData ''sha256(packed(0xc0,7,packed(0xc0,0xfirst)))'' demoBlockchain (Inr demoAgreement),
           EvGetBlockchainTimestamp demoBlockchain (Inr 1700),
           EvGetBidSuggestion ''localhost'' 8900 ''token'' ''otp''
             (Num (epochsNumber demoAgreement - (1700 - startTime demoAgreement) div epochLength demoAgreement))
             100 ''0xc0'' ''0xstate'' 1 (Inr 50)])"
proof -
  let ?u = "\<lparr> resolvedUAL.contract = ''0xc0'', resolvedUAL.tokenId = 7 \<rparr>"
  have h1: "resolveUAL (utilities expiredEnv) demoUAL = Inr ?u"
    by (simp add: expiredEnv_def demo_defs)
  have h2: "getAssertionIdByIndex (blockchainService expiredEnv) [] (resolvedUAL.tokenId ?u) 0 demoBlockchain
            = Inr ''0xfirst''"
    by (simp add: expiredEnv_def demo_defs)
  have h3: "solidityPacked (ethers expiredEnv) [''address'', ''bytes32'']
              [JStr (resolvedUAL.contract ?u), JStr ''0xfirst''] = Inr ''packed(0xc0,0xfirst)''"
    by (simp add: expiredEnv_def demo_defs)
  have h4: "solidityPacked (ethers expiredEnv) [''address'', ''uint256'', ''bytes'']
              [JStr (resolvedUAL.contract ?u), JNum (resolvedUAL.tokenId ?u), JStr ''packed(0xc0,0xfirst)'']
            = Inr ''packed(0xc0,7,packed(0xc0,0xfirst))''"
    by (simp add: expiredEnv_def demo_defs)
  have h5: "sha256 (ethers expiredEnv) ''packed(0xc0,7,packed(0xc0,0xfirst))''
            = Inr ''sha256(packed(0xc0,7,packed(0xc0,0xfirst)))''"
    by (simp add: expiredEnv_def demo_defs)
  have h6: "getAgreementData (blockchainService expiredEnv)
              ([] @ [EvGetAssertionIdByIndex (resolvedUAL.tokenId ?u) 0 demoBlockchain (Inr ''0xfirst'')])
              ''sha256(packed(0xc0,7,packed(0xc0,0xfirst)))'' demoBlockchain = Inr demoAgreement"
    by (simp add: expiredEnv_def demoEnv_def demoBlockchainService_def)
  have h7: "getBlockchainTimestamp (blockchainService expiredEnv)
              ([] @ [EvGetAssertionIdByIndex (resolvedUAL.tokenId ?u) 0 demoBlockchain (Inr ''0xfirst''),
                     EvGetAgreementData ''sha256(packed(0xc0,7,packed(0xc0,0xfirst)))'' demoBlockchain
                       (Inr demoAgreement)])
              demoBlockchain = Inr 1700"
    by (simp add: expiredEnv_def demoEnv_def demoBlockchainService_def)
  have h8: "epochLength demoAgreement \<noteq> 0"
    by (simp add: demoAgreement_def)
  have h9: "epochsNumber demoAgreement - (1700 - startTime demoAgreement) div epochLength demoAgreement \<le> 0"
    by (simp add: demoAgreement_def)
  have h10: "getBidSuggestion (nodeApiService expiredEnv)
               ([] @ [EvGetAssertionIdByIndex (resolvedUAL.tokenId ?u) 0 demoBlockchain (Inr ''0xfirst''),
                      EvGetAgreementData ''sha256(packed(0xc0,7,packed(0xc0,0xfirst)))'' demoBlockchain
                        (Inr demoAgreement),
                      EvGetBlockchainTimestamp demoBlockchain (Inr 1700)])
               ''localhost'' 8900 ''token''
               (if startsWith (name demoBlockchain) ''otp'' then ''otp'' else name demoBlockchain)
               (Num (epochsNumber demoAgreement - (1700 - startTime demoAgreement) div epochLength demoAgreement))
               100 (resolvedUAL.contract ?u) ''0xstate'' 1 = Inr 50"
    by (simp add: expiredEnv_def demoEnv_def demoNodeApiService_def)
  have otp: "(if startsWith (name demoBlockchain) ''otp'' then ''otp'' else name demoBlockchain) = ''otp''"
    by (simp add: demoBlockchain_def startsWith_def)
  from expired_agreement_is_quoted [OF h1 h2 h3 h4 h5 h6 h7 h8 h9 h10]
  have run: "getUpdateBidSuggestion expiredEnv demoUAL demoBlockchain ''localhost'' 8900 ''token'' ''0xstate'' 100 1 []
       = (Inr (max (50 - (agreementData.tokenAmount demoAgreement
                          + (case updateTokenAmount demoAgreement of None \<Rightarrow> 0 | Some v \<Rightarrow> v))) 0),
          [EvGetAssertionIdByIndex 7 0 demoBlockchain (Inr ''0xfirst''),
           EvGetAgreementData ''sha256(packed(0xc0,7,packed(0xc0,0xfirst)))'' demoBlockchain (Inr demoAgreement),
           EvGetBlockchainTimestamp demoBlockchain (Inr 1700),
           EvGetBidSuggestion ''localhost'' 8900 ''token'' ''otp''
             (Num (epochsNumber demoAgreement - (1700 - startTime demoAgreement) div epochLength demoAgreement))
             100 ''0xc0'' ''0xstate'' 1 (Inr 50)])"
    by (simp add: otp)
  from h1 h2 h3 h4 h5 h8 h9 run show ?thesis
    by simp
qed

subsection \<open>Adding tokens and extending the storing period\<close>










subsection \<open>Waiting for the finalization\<close>

declare doWhilePending.simps [simp del]

lemma pendingChecks_append [simp]: "pendingChecks (xs @ ys) = pendingChecks xs @ pendingChecks ys"
  by (simp add: pendingChecks_def List.map_filter_def)

lemma pendingChecks_simps [simp]:
  "pendingChecks [] = []"
  "pendingChecks (EvSleep ms # tr) = pendingChecks tr"
  "pendingChecks (EvHasPendingUpdate t bc r # tr) = r # pendingChecks tr"
  by (simp_all add: pendingChecks_def)

lemma doWhilePending_checks:
  assumes "fst st" and "doWhilePending E t bc freq N st tr = (out, tr')"
  shows "\<exists>cs. pendingChecks tr' = pendingChecks tr @ cs
           \<and> length cs \<le> nat (N + 1 - fst (snd st))
           \<and> (\<forall>r d. out = Inr (True, r, d) \<longrightarrow>
                Inr False \<notin> set cs \<and> length cs = nat (N + 1 - fst (snd st)) \<and> d = retriesReached)
           \<and> (\<forall>r d. out = Inr (False, r, d) \<longrightarrow> Inr False \<in> set cs \<and> d = snd (snd st))"
  using assms
proof (induction E t bc freq N st tr arbitrary: out tr' rule: doWhilePending.induct)
  case (1 E t bc freq maxRetries pendingUpdate retries responseData tr)
  show ?case
  proof (cases "retries > maxRetries")
    case True
    with "1.prems" show ?thesis
      by (auto simp: doWhilePending.simps retriesReached_def)
  next
    case False
    show ?thesis
    proof (cases "hasPendingUpdate (blockchainService E) (tr @ [EvSleep (freq * 1000)]) t bc")
      case (Inl e)
      with False "1.prems" show ?thesis
        by (auto simp: doWhilePending.simps io_defs call_defs)
    next
      case (Inr p)
      show ?thesis
      proof (cases p)
        case False
        with Inr \<open>\<not> retries > maxRetries\<close> "1.prems" show ?thesis
          by (auto simp: doWhilePending.simps io_defs call_defs)
      next
        case True
        let ?tr2 = "tr @ [EvSleep (freq * 1000), EvHasPendingUpdate t bc (Inr True)]"
        from True Inr \<open>\<not> retries > maxRetries\<close> "1.prems"
        have rec: "doWhilePending E t bc freq maxRetries (True, retries + 1, responseData) ?tr2 = (out, tr')"
          by (simp add: doWhilePending.simps io_defs call_defs)
        have s1: "(Inr (), tr @ [EvSleep (freq * 1000)]) = sleepForMilliseconds (freq * 1000) tr"
          by (simp add: io_defs)
        have s3: "(Inr True, ?tr2) = chain_hasPendingUpdate E t bc (tr @ [EvSleep (freq * 1000)])"
          using Inr True by (simp add: io_defs call_defs)
        note ih = "1.IH" [OF \<open>\<not> retries > maxRetries\<close> s1 refl s3 refl, of out tr']
        from ih rec
        obtain cs where cs: "pendingChecks tr' = pendingChecks ?tr2 @ cs"
           "length cs \<le> nat (maxRetries - retries)"
           "\<forall>r d. out = Inr (True, r, d) \<longrightarrow>
                Inr False \<notin> set cs \<and> length cs = nat (maxRetries - retries) \<and> d = retriesReached"
           "\<forall>r d. out = Inr (False, r, d) \<longrightarrow> Inr False \<in> set cs \<and> d = responseData"
          by auto
        show ?thesis
          apply (rule exI [of _ "Inr True # cs"])
          using cs \<open>\<not> retries > maxRetries\<close> by (auto simp: nat_diff_distrib)
      qed
    qed
  qed
qed

lemma pendingRounds_Suc:
  "pendingRounds freq t bc (Suc k)
   = [EvSleep (freq * 1000), EvHasPendingUpdate t bc (Inr True)] @ pendingRounds freq t bc k"
  by (simp add: pendingRounds_def)

lemma pendingRounds_0 [simp]: "pendingRounds freq t bc 0 = []"
  by (simp add: pendingRounds_def)

lemma doWhilePending_settles:
  assumes "retries + int k \<le> N"
    and "\<forall>i<k. hasPendingUpdate (blockchainService E)
                  (tr @ pendingRounds freq t bc i @ [EvSleep (freq * 1000)]) t bc = Inr True"
    and "hasPendingUpdate (blockchainService E)
           (tr @ pendingRounds freq t bc k @ [EvSleep (freq * 1000)]) t bc = answer"
    and "answer \<noteq> Inr True"
  shows "doWhilePending E t bc freq N (p0, retries, d) tr
         = ((case answer of Inl e \<Rightarrow> Inl e | Inr p \<Rightarrow> Inr (False, retries + int k + 1, d)),
            tr @ pendingRounds freq t bc k @ [EvSleep (freq * 1000), EvHasPendingUpdate t bc answer])"
  using assms
proof (induction k arbitrary: retries tr p0)
  case 0
  then show ?case
    by (cases answer) (auto simp: doWhilePending.simps [of E t bc freq N p0 retries d tr] io_defs call_defs)
next
  case (Suc k)
  let ?tr2 = "tr @ [EvSleep (freq * 1000), EvHasPendingUpdate t bc (Inr True)]"
  from Suc.prems(2) have first: "hasPendingUpdate (blockchainService E) (tr @ [EvSleep (freq * 1000)]) t bc = Inr True"
    by (auto dest: spec [of _ 0])
  have step: "doWhilePending E t bc freq N (p0, retries, d) tr
              = doWhilePending E t bc freq N (True, retries + 1, d) ?tr2"
    using Suc.prems(1) first
    by (simp add: doWhilePending.simps [of E t bc freq N p0 retries d tr] io_defs call_defs)
  have h1: "retries + 1 + int k \<le> N" using Suc.prems(1) by simp
  have h2: "\<forall>i<k. hasPendingUpdate (blockchainService E)
                  (?tr2 @ pendingRounds freq t bc i @ [EvSleep (freq * 1000)]) t bc = Inr True"
  proof (intro allI impI)
    fix i assume "i < k"
    then have "Suc i < Suc k" by simp
    with Suc.prems(2) show "hasPendingUpdate (blockchainService E)
                  (?tr2 @ pendingRounds freq t bc i @ [EvSleep (freq * 1000)]) t bc = Inr True"
      by (auto simp: pendingRounds_Suc dest!: spec [of _ "Suc i"])
  qed
  have h3: "hasPendingUpdate (blockchainService E)
           (?tr2 @ pendingRounds freq t bc k @ [EvSleep (freq * 1000)]) t bc = answer"
    using Suc.prems(3) by (simp add: pendingRounds_Suc)
  from Suc.IH [OF h1 h2 h3 Suc.prems(4), of True] step
  show ?case
    by (simp add: pendingRounds_Suc split: sum.splits)
qed

lemma doWhilePending_exhausts:
  assumes "retries \<le> N + 1"
    and "\<forall>i < nat (N + 1 - retries). hasPendingUpdate (blockchainService E)
                  (tr @ pendingRounds freq t bc i @ [EvSleep (freq * 1000)]) t bc = Inr True"
  shows "doWhilePending E t bc freq N (True, retries, d) tr
         = (Inr (True, N + 1, retriesReached), tr @ pendingRounds freq t bc (nat (N + 1 - retries)))"
  using assms
proof (induction "nat (N + 1 - retries)" arbitrary: retries tr)
  case 0
  then have "retries = N + 1" by simp
  then show ?case
    by (subst doWhilePending.simps) (simp add: retriesReached_def)
next
  case (Suc k)
  let ?tr2 = "tr @ [EvSleep (freq * 1000), EvHasPendingUpdate t bc (Inr True)]"
  from Suc.hyps(2) have le: "retries \<le> N" and k: "k = nat (N + 1 - (retries + 1))" by simp_all
  from Suc.prems(2) Suc.hyps(2)
  have first: "hasPendingUpdate (blockchainService E) (tr @ [EvSleep (freq * 1000)]) t bc = Inr True"
    by (auto dest: spec [of _ 0])
  have step: "doWhilePending E t bc freq N (True, retries, d) tr
              = doWhilePending E t bc freq N (True, retries + 1, d) ?tr2"
    using le first
    by (simp add: doWhilePending.simps [of E t bc freq N True retries d tr] io_defs call_defs)
  have h2: "\<forall>i < nat (N + 1 - (retries + 1)). hasPendingUpdate (blockchainService E)
                  (?tr2 @ pendingRounds freq t bc i @ [EvSleep (freq * 1000)]) t bc = Inr True"
  proof (intro allI impI)
    fix i assume "i < nat (N + 1 - (retries + 1))"
    then have "Suc i < nat (N + 1 - retries)" using le by simp
    with Suc.prems(2) show "hasPendingUpdate (blockchainService E)
                  (?tr2 @ pendingRounds freq t bc i @ [EvSleep (freq * 1000)]) t bc = Inr True"
      by (auto simp: pendingRounds_Suc dest!: spec [of _ "Suc i"])
  qed
  have h1: "retries + 1 \<le> N + 1" using le by simp
  have k': "nat (N - retries) = k" using Suc.hyps(2) by simp
  from Suc.hyps(1) [OF k h1 h2] step Suc.hyps(2) [symmetric] k'
  show ?case
    by (simp add: pendingRounds_Suc)
qed

lemma pendingChecks_pendingRounds [simp]:
  "pendingChecks (pendingRounds freq t bc k) = replicate k (Inr True)"
  by (induction k) (simp_all add: pendingRounds_Suc)

text \<open>
  C6. For a retry budget \<open>N \<ge> 0\<close>, \<open>waitFinalization\<close> sleeps and asks the chain whether
  the asset of the UAL has a pending update, round after round. If the first \<open>k \<le> N\<close>
  checks answer that it has and the next one that it has not, the result is COMPLETED, after
  exactly \<open>k + 1\<close> checks. If \<open>N + 1\<close> checks answer that it has, the result is PENDING
  after exactly these \<open>N + 1\<close> checks, with the data saying that the retries are used up;
  so with \<open>N = 0\<close> and an update that is pending, PENDING comes after exactly one check.
  A check that fails ends the run with its error. Whatever the chain answers, the run makes
  at most \<open>N + 1\<close> checks.
\<close>

theorem wait_finalization_checks:
  fixes u :: resolvedUAL
  assumes "getBlockchain (inputService E) options = Inr bc"
    and "getFrequency (inputService E) options = Inr freq"
    and "getMaxNumberOfRetries (inputService E) options = Inr N"
    and "validateWaitAssetUpdateFinalization (validationService E) UAL bc = Inr ()"
    and "resolveUAL (utilities E) UAL = Inr u"
    and "0 \<le> N"
  shows
    "(\<forall>k. k \<le> nat N
        \<and> (\<forall>i<k. hasPendingUpdate (blockchainService E)
                     (tr @ pendingRounds freq (resolvedUAL.tokenId u) bc i @ [EvSleep (freq * 1000)])
                     (resolvedUAL.tokenId u) bc = Inr True)
        \<and> hasPendingUpdate (blockchainService E)
              (tr @ pendingRounds freq (resolvedUAL.tokenId u) bc k @ [EvSleep (freq * 1000)])
              (resolvedUAL.tokenId u) bc = Inr False
        \<longrightarrow> waitFinalization E UAL options tr
            = (Inr (JObj [(''UAL'', JStr UAL),
                          (''operation'',
                           getOperationStatusObject
                             \<lparr> status = OPERATION_STATUSES_COMPLETED (constants E),
                               data = JUndefined \<rparr> None)]),
               tr @ pendingRounds freq (resolvedUAL.tokenId u) bc k
                  @ [EvSleep (freq * 1000), EvHasPendingUpdate (resolvedUAL.tokenId u) bc (Inr False)])
          \<and> pendingChecks (pendingRounds freq (resolvedUAL.tokenId u) bc k
                            @ [EvSleep (freq * 1000),
                               EvHasPendingUpdate (resolvedUAL.tokenId u) bc (Inr False)])
            = replicate k (Inr True) @ [Inr False]
          \<and> k + 1 \<le> nat N + 1)
   \<and> ((\<forall>i<nat N + 1. hasPendingUpdate (blockchainService E)
                     (tr @ pendingRounds freq (resolvedUAL.tokenId u) bc i @ [EvSleep (freq * 1000)])
                     (resolvedUAL.tokenId u) bc = Inr True)
        \<longrightarrow> waitFinalization E UAL options tr
            = (Inr (JObj [(''UAL'', JStr UAL),
                          (''operation'',
                           getOperationStatusObject
                             \<lparr> status = OPERATION_STATUSES_PENDING (constants E),
                               data = retriesReached \<rparr> None)]),
               tr @ pendingRounds freq (resolvedUAL.tokenId u) bc (nat N + 1))
          \<and> pendingChecks (pendingRounds freq (resolvedUAL.tokenId u) bc (nat N + 1))
            = replicate (nat N + 1) (Inr True))
   \<and> (\<forall>k e. k \<le> nat N
        \<and> (\<forall>i<k. hasPendingUpdate (blockchainService E)
                     (tr @ pendingRounds freq (resolvedUAL.tokenId u) bc i @ [EvSleep (freq * 1000)])
                     (resolvedUAL.tokenId u) bc = Inr True)
        \<and> hasPendingUpdate (blockchainService E)
              (tr @ pendingRounds freq (resolvedUAL.tokenId u) bc k @ [EvSleep (freq * 1000)])
              (resolvedUAL.tokenId u) bc = Inl e
        \<longrightarrow> waitFinalization E UAL options tr
            = (Inl e,
               tr @ pendingRounds freq (resolvedUAL.tokenId u) bc k
                  @ [EvSleep (freq * 1000), EvHasPendingUpdate (resolvedUAL.tokenId u) bc (Inl e)]))
   \<and> length (pendingChecks (snd (waitFinalization E UAL options tr)))
       \<le> length (pendingChecks tr) + (nat N + 1)"
proof -
  let ?t = "resolvedUAL.tokenId u"
  have wf: "waitFinalization E UAL options tr
            = (case doWhilePending E ?t bc freq N (True, 0, JUndefined) tr of
                 (Inl e, tr') \<Rightarrow> (Inl e, tr')
               | (Inr (pendingUpdate, retries, responseData), tr') \<Rightarrow>
                   (Inr (JObj [(''UAL'', JStr UAL),
                      (''operation'',
                       getOperationStatusObject
                         \<lparr> status = (if pendingUpdate then OPERATION_STATUSES_PENDING (constants E)
                                     else OPERATION_STATUSES_COMPLETED (constants E)),
                           data = responseData \<rparr> None)]), tr'))"
    using assms(1-5)
    unfolding waitFinalization_def io_defs
    by (simp split: sum.splits prod.splits)
  have settled: "waitFinalization E UAL options tr
            = (Inr (JObj [(''UAL'', JStr UAL),
                          (''operation'',
                           getOperationStatusObject
                             \<lparr> status = OPERATION_STATUSES_COMPLETED (constants E),
                               data = JUndefined \<rparr> None)]),
               tr @ pendingRounds freq ?t bc k
                  @ [EvSleep (freq * 1000), EvHasPendingUpdate ?t bc (Inr False)])"
    if "k \<le> nat N"
      and "\<forall>i<k. hasPendingUpdate (blockchainService E)
                     (tr @ pendingRounds freq ?t bc i @ [EvSleep (freq * 1000)]) ?t bc = Inr True"
      and "hasPendingUpdate (blockchainService E)
              (tr @ pendingRounds freq ?t bc k @ [EvSleep (freq * 1000)]) ?t bc = Inr False"
    for k
  proof -
    from that(1) \<open>0 \<le> N\<close> have "0 + int k \<le> N" by simp
    from doWhilePending_settles [OF this that(2) that(3), of True JUndefined] wf
    show ?thesis by simp
  qed
  have failed: "waitFinalization E UAL options tr
            = (Inl e,
               tr @ pendingRounds freq ?t bc k
                  @ [EvSleep (freq * 1000), EvHasPendingUpdate ?t bc (Inl e)])"
    if "k \<le> nat N"
      and "\<forall>i<k. hasPendingUpdate (blockchainService E)
                     (tr @ pendingRounds freq ?t bc i @ [EvSleep (freq * 1000)]) ?t bc = Inr True"
      and "hasPendingUpdate (blockchainService E)
              (tr @ pendingRounds freq ?t bc k @ [EvSleep (freq * 1000)]) ?t bc = Inl e"
    for k e
  proof -
    from that(1) \<open>0 \<le> N\<close> have "0 + int k \<le> N" by simp
    from doWhilePending_settles [OF this that(2) that(3), of True JUndefined] wf
    show ?thesis by simp
  qed
  have exhausted: "waitFinalization E UAL options tr
            = (Inr (JObj [(''UAL'', JStr UAL),
                          (''operation'',
                           getOperationStatusObject
                             \<lparr> status = OPERATION_STATUSES_PENDING (constants E),
                               data = retriesReached \<rparr> None)]),
               tr @ pendingRounds freq ?t bc (nat N + 1))"
    if "\<forall>i<nat N + 1. hasPendingUpdate (blockchainService E)
                     (tr @ pendingRounds freq ?t bc i @ [EvSleep (freq * 1000)]) ?t bc = Inr True"
  proof -
    have n: "nat (N + 1 - 0) = nat N + 1" using \<open>0 \<le> N\<close> by simp
    have "(0::int) \<le> N + 1" using \<open>0 \<le> N\<close> by simp
    from doWhilePending_exhausts [OF this, of E tr freq ?t bc JUndefined] that n wf
    show ?thesis by simp
  qed
  have bound: "length (pendingChecks (snd (waitFinalization E UAL options tr)))
       \<le> length (pendingChecks tr) + (nat N + 1)"
  proof -
    obtain lo tr' where loop:
      "doWhilePending E ?t bc freq N (True, 0, JUndefined) tr = (lo, tr')"
      by (cases "doWhilePending E ?t bc freq N (True, 0, JUndefined) tr") blast
    from doWhilePending_checks [OF _ loop] \<open>0 \<le> N\<close>
    obtain cs where cs: "pendingChecks tr' = pendingChecks tr @ cs" "length cs \<le> nat N + 1"
      by (auto simp: nat_add_distrib)
    from wf loop have "snd (waitFinalization E UAL options tr) = tr'"
      by (simp split: sum.splits prod.splits)
    with cs show ?thesis by simp
  qed
  from settled failed exhausted bound show ?thesis
    by simp
qed

theorem wait_finalization_checks_witness:
  "getMaxNumberOfRetries (inputService demoEnv) JNull = Inr 0
   \<and> hasPendingUpdate (blockchainService demoEnv) [EvSleep 5000] 7 demoBlockchain = Inr True
   \<and> waitFinalization demoEnv demoUAL JNull []
       = (Inr (JObj [(''UAL'', JStr demoUAL),
                     (''operation'',
                      getOperationStatusObject
                        \<lparr> status = OPERATION_STATUSES_PENDING (constants demoEnv),
                          data = retriesReached \<rparr> None)]),
          [EvSleep 5000, EvHasPendingUpdate 7 demoBlockchain (Inr True)])
   \<and> pendingChecks [EvSleep 5000, EvHasPendingUpdate 7 demoBlockchain (Inr True)] = [Inr True]
   \<and> getMaxNumberOfRetries (inputService settlingEnv) JNull = Inr 3
   \<and> hasPendingUpdate (blockchainService settlingEnv) [EvSleep 5000] 7 demoBlockchain = Inr True
   \<and> hasPendingUpdate (blockchainService settlingEnv)
        [EvSleep 5000, EvHasPendingUpdate 7 demoBlockchain (Inr True), EvSleep 5000] 7 demoBlockchain
       = Inr True
   \<and> hasPendingUpdate (blockchainService settlingEnv)
        [EvSleep 5000, EvHasPendingUpdate 7 demoBlockchain (Inr True),
         EvSleep 5000, EvHasPendingUpdate 7 demoBlockchain (Inr True), EvSleep 5000] 7 demoBlockchain
       = Inr False
   \<and> waitFinalization settlingEnv demoUAL JNull []
       = (Inr (JObj [(''UAL'', JStr demoUAL),
                     (''operation'',
                      getOperationStatusObject
                        \<lparr> status = OPERATION_STATUSES_COMPLETED (constants settlingEnv),
                          data = JUndefined \<rparr> None)]),
          [EvSleep 5000, EvHasPendingUpdate 7 demoBlockchain (Inr True),
           EvSleep 5000, EvHasPendingUpdate 7 demoBlockchain (Inr True),
           EvSleep 5000, EvHasPendingUpdate 7 demoBlockchain (Inr False)])
   \<and> pendingChecks
        [EvSleep 5000, EvHasPendingUpdate 7 demoBlockchain (Inr True),
         EvSleep 5000, EvHasPendingUpdate 7 demoBlockchain (Inr True),
         EvSleep 5000, EvHasPendingUpdate 7 demoBlockchain (Inr False)]
       = [Inr True, Inr True, Inr False]"
proof -
  let ?u = "\<lparr> resolvedUAL.contract = ''0xc0'', resolvedUAL.tokenId = 7 \<rparr>"
  have rounds: "pendingRounds 5 7 demoBlockchain 0 = []"
    "pendingRounds 5 7 demoBlockchain (Suc 0) = [EvSleep 5000, EvHasPendingUpdate 7 demoBlockchain (Inr True)]"
    "pendingRounds 5 7 demoBlockchain 2
     = [EvSleep 5000, EvHasPendingUpdate 7 demoBlockchain (Inr True),
        EvSleep 5000, EvHasPendingUpdate 7 demoBlockchain (Inr True)]"
    by (simp_all add: pendingRounds_def numeral_2_eq_2)
  have d1: "getBlockchain (inputService demoEnv) JNull = Inr demoBlockchain"
    and d2: "getFrequency (inputService demoEnv) JNull = Inr 5"
    and d3: "getMaxNumberOfRetries (inputService demoEnv) JNull = Inr 0"
    and d4: "validateWaitAssetUpdateFinalization (validationService demoEnv) demoUAL demoBlockchain = Inr ()"
    and d5: "resolveUAL (utilities demoEnv) demoUAL = Inr ?u"
    by (simp_all add: demo_defs)
  have d6: "(0::int) \<le> 0" by simp
  have dp: "hasPendingUpdate (blockchainService demoEnv) [EvSleep 5000] 7 demoBlockchain = Inr True"
    by (simp add: demo_defs)
  have dall: "\<forall>i<nat 0 + 1. hasPendingUpdate (blockchainService demoEnv)
                     ([] @ pendingRounds 5 (resolvedUAL.tokenId ?u) demoBlockchain i @ [EvSleep (5 * 1000)])
                     (resolvedUAL.tokenId ?u) demoBlockchain = Inr True"
    by (simp add: demo_defs)
  from wait_finalization_checks [OF d1 d2 d3 d4 d5 d6, of "[]"] dall
  have pending: "waitFinalization demoEnv demoUAL JNull []
       = (Inr (JObj [(''UAL'', JStr demoUAL),
                     (''operation'',
                      getOperationStatusObject
                        \<lparr> status = OPERATION_STATUSES_PENDING (constants demoEnv),
                          data = retriesReached \<rparr> None)]),
          [EvSleep 5000, EvHasPendingUpdate 7 demoBlockchain (Inr True)])"
    by (simp add: rounds)
  have s1: "getBlockchain (inputService settlingEnv) JNull = Inr demoBlockchain"
    and s2: "getFrequency (inputService settlingEnv) JNull = Inr 5"
    and s3: "getMaxNumberOfRetries (inputService settlingEnv) JNull = Inr 3"
    and s4: "validateWaitAssetUpdateFinalization (validationService settlingEnv) demoUAL demoBlockchain = Inr ()"
    and s5: "resolveUAL (utilities settlingEnv) demoUAL = Inr ?u"
    by (simp_all add: settlingEnv_def demo_defs)
  have s6: "(0::int) \<le> 3" by simp
  have sp: "hasPendingUpdate (blockchainService settlingEnv) [EvSleep 5000] 7 demoBlockchain = Inr True"
    "hasPendingUpdate (blockchainService settlingEnv)
        [EvSleep 5000, EvHasPendingUpdate 7 demoBlockchain (Inr True), EvSleep 5000] 7 demoBlockchain
       = Inr True"
    "hasPendingUpdate (blockchainService settlingEnv)
        [EvSleep 5000, EvHasPendingUpdate 7 demoBlockchain (Inr True),
         EvSleep 5000, EvHasPendingUpdate 7 demoBlockchain (Inr True), EvSleep 5000] 7 demoBlockchain
       = Inr False"
    by (simp_all add: settlingEnv_def demoEnv_def demoBlockchainService_def)
  have sall: "\<forall>i<2. hasPendingUpdate (blockchainService settlingEnv)
                     ([] @ pendingRounds 5 (resolvedUAL.tokenId ?u) demoBlockchain i @ [EvSleep (5 * 1000)])
                     (resolvedUAL.tokenId ?u) demoBlockchain = Inr True"
    using sp(1,2) by (auto dest!: less_2_cases simp: rounds)
  have slast: "hasPendingUpdate (blockchainService settlingEnv)
                     ([] @ pendingRounds 5 (resolvedUAL.tokenId ?u) demoBlockchain 2 @ [EvSleep (5 * 1000)])
                     (resolvedUAL.tokenId ?u) demoBlockchain = Inr False"
    using sp(3) by (simp add: rounds)
  have le: "(2::nat) \<le> nat 3" by simp
  from wait_finalization_checks [OF s1 s2 s3 s4 s5 s6, of "[]"]
  have "2 \<le> nat 3
        \<and> (\<forall>i<2. hasPendingUpdate (blockchainService settlingEnv)
                     ([] @ pendingRounds 5 (resolvedUAL.tokenId ?u) demoBlockchain i @ [EvSleep (5 * 1000)])
                     (resolvedUAL.tokenId ?u) demoBlockchain = Inr True)
        \<and> hasPendingUpdate (blockchainService settlingEnv)
              ([] @ pendingRounds 5 (resolvedUAL.tokenId ?u) demoBlockchain 2 @ [EvSleep (5 * 1000)])
              (resolvedUAL.tokenId ?u) demoBlockchain = Inr False
        \<longrightarrow> waitFinalization settlingEnv demoUAL JNull []
            = (Inr (JObj [(''UAL'', JStr demoUAL),
                          (''operation'',
                           getOperationStatusObject
                             \<lparr> status = OPERATION_STATUSES_COMPLETED (constants settlingEnv),
                               data = JUndefined \<rparr> None)]),
               [] @ pendingRounds 5 (resolvedUAL.tokenId ?u) demoBlockchain 2
                  @ [EvSleep (5 * 1000), EvHasPendingUpdate (resolvedUAL.tokenId ?u) demoBlockchain (Inr False)])"
    by blast
  with le sall slast
  have completed: "waitFinalization settlingEnv demoUAL JNull []
       = (Inr (JObj [(''UAL'', JStr demoUAL),
                     (''operation'',
                      getOperationStatusObject
                        \<lparr> status = OPERATION_STATUSES_COMPLETED (constants settlingEnv),
                          data = JUndefined \<rparr> None)]),
          [EvSleep 5000, EvHasPendingUpdate 7 demoBlockchain (Inr True),
           EvSleep 5000, EvHasPendingUpdate 7 demoBlockchain (Inr True),
           EvSleep 5000, EvHasPendingUpdate 7 demoBlockchain (Inr False)])"
    by (simp add: rounds)
  from d3 dp pending s3 sp completed show ?thesis
    by simp
qed

subsection \<open>Create and update after a failed local store\<close>

lemma andThenE:
  assumes "andThen m f tr = (out, tr')"
  obtains (fail) e where "m tr = (Inl e, tr')" "out = Inl e"
        | (ok) x tr1 where "m tr = (Inr x, tr1)" "f x tr1 = (out, tr')"
  using assms unfolding andThen_def by (auto split: sum.splits prod.splits)

lemma io_ifE:
  assumes "(if c then m1 else m2) tr = r"
  obtains "c" "m1 tr = r" | "\<not> c" "m2 tr = r"
  using assms by (cases c) auto

lemma io_optionE:
  assumes "(case v of None \<Rightarrow> m1 | Some x \<Rightarrow> m2 x) tr = r"
  obtains "v = None" "m1 tr = r" | x where "v = Some x" "m2 x tr = r"
  using assms by (cases v) auto

lemmas io_elims = andThenE io_ifE io_optionE

text \<open>
  The runs of create and of update are read step by step: each awaited step either ends
  the run with its error or hands its value to the rest.
\<close>

lemma create_failed_store:
  assumes "create E content options hooks [] = (out, tr)"
    and "EvGetOperationResult ep po au LOCAL_STORE n f opId (Inr res) \<in> set tr"
    and "status res = OPERATION_STATUSES_FAILED (constants E)"
  shows "filter isPublish tr = []
       \<and> (\<exists>ual root. out = Inr (JObj [(''UAL'', JStr ual), (''assertionId'', JStr root),
                                       (''operation'', getOperationStatusObject res (Some opId))]))"
  using assms
  unfolding create_def Let_def case_prod_beta
  apply (elim io_elims)
  apply (auto simp: io_defs call_defs)
  done

lemma update_failed_store:
  assumes "update E UAL content options [] = (out, tr)"
    and "EvGetOperationResult ep po au LOCAL_STORE n f opId (Inr res) \<in> set tr"
    and "status res = OPERATION_STATUSES_FAILED (constants E)"
  shows "filter isUpdate tr = []
       \<and> (\<exists>root. out = Inr (JObj [(''UAL'', JStr UAL), (''assertionId'', JStr root),
                                   (''operation'', getOperationStatusObject res (Some opId))]))"
  using assms
  unfolding update_def getUpdateBidSuggestion_def Let_def case_prod_beta
  apply (elim io_elims)
  apply (auto simp: io_defs call_defs)
  done

lemma status_of_summary:
  "optMember (getOperationStatusObject res i) ''status'' = JStr (status res)"
  by (simp add: getOperationStatusObject_def)

text \<open>
  C1. Name a run of create and a run of update. If the poll of the local store resolved
  with the status FAILED, the run of create issued no off-chain publish and the run of
  update no off-chain update, and the result is the object with the UAL, the public
  assertion's root and, as \<open>operation\<close>, the summary of that FAILED local-store result
  under the identifier of the local store operation.
\<close>

theorem failed_local_store_stops:
  assumes "create E content options hooks [] = (out, tr)"
    and "update E UAL content' options' [] = (out', tr')"
  shows "(\<forall>ep po au n f opId res.
            EvGetOperationResult ep po au LOCAL_STORE n f opId (Inr res) \<in> set tr
            \<and> status res = OPERATION_STATUSES_FAILED (constants E) \<longrightarrow>
              filter isPublish tr = []
              \<and> (\<exists>ual root. out = Inr (JObj [(''UAL'', JStr ual), (''assertionId'', JStr root),
                                               (''operation'', getOperationStatusObject res (Some opId))]))
              \<and> optMember (getOperationStatusObject res (Some opId)) ''status''
                  = JStr (OPERATION_STATUSES_FAILED (constants E)))
       \<and> (\<forall>ep po au n f opId res.
            EvGetOperationResult ep po au LOCAL_STORE n f opId (Inr res) \<in> set tr'
            \<and> status res = OPERATION_STATUSES_FAILED (constants E) \<longrightarrow>
              filter isUpdate tr' = []
              \<and> (\<exists>root. out' = Inr (JObj [(''UAL'', JStr UAL), (''assertionId'', JStr root),
                                            (''operation'', getOperationStatusObject res (Some opId))]))
              \<and> optMember (getOperationStatusObject res (Some opId)) ''status''
                  = JStr (OPERATION_STATUSES_FAILED (constants E)))"
  using create_failed_store [OF assms(1)] update_failed_store [OF assms(2)] status_of_summary
  by metis

lemmas content_eval =
  demo_eval privatePart_def publicGraph_def assertionValue_def assertionsToStore_def
  getOperationStatusObject_def emptyHooks_def demoContent_def failingStoreEnv_def failedStore_def

lemma failing_create_store_event:
  "EvGetOperationResult ''localhost'' 8900 ''token'' LOCAL_STORE 5 (1 / 2) ''op-store'' (Inr failedStore)
     \<in> set (snd (create failingStoreEnv demoContent JNull emptyHooks []))"
  by (simp add: create_def content_eval)

lemma failing_update_store_event:
  "EvGetOperationResult ''localhost'' 8900 ''token'' LOCAL_STORE 5 (1 / 2) ''op-store'' (Inr failedStore)
     \<in> set (snd (update failingStoreEnv demoUAL demoContent JNull []))"
  by (simp add: update_def getUpdateBidSuggestion_def content_eval)

theorem failed_local_store_stops_witness:
  "EvGetOperationResult ''localhost'' 8900 ''token'' LOCAL_STORE 5 (1 / 2) ''op-store'' (Inr failedStore)
     \<in> set (snd (create failingStoreEnv demoContent JNull emptyHooks []))
   \<and> EvGetOperationResult ''localhost'' 8900 ''token'' LOCAL_STORE 5 (1 / 2) ''op-store'' (Inr failedStore)
     \<in> set (snd (update failingStoreEnv demoUAL demoContent JNull []))
   \<and> status failedStore = OPERATION_STATUSES_FAILED (constants failingStoreEnv)
   \<and> filter isPublish (snd (create failingStoreEnv demoContent JNull emptyHooks [])) = []
   \<and> (\<exists>ual root. fst (create failingStoreEnv demoContent JNull emptyHooks [])
         = Inr (JObj [(''UAL'', JStr ual), (''assertionId'', JStr root),
                      (''operation'', getOperationStatusObject failedStore (Some ''op-store''))]))
   \<and> filter isUpdate (snd (update failingStoreEnv demoUAL demoContent JNull [])) = []
   \<and> (\<exists>root. fst (update failingStoreEnv demoUAL demoContent JNull [])
         = Inr (JObj [(''UAL'', JStr demoUAL), (''assertionId'', JStr root),
                      (''operation'', getOperationStatusObject failedStore (Some ''op-store''))]))
   \<and> optMember (getOperationStatusObject failedStore (Some ''op-store'')) ''status'' = JStr ''FAILED''"
proof -
  have st: "status failedStore = OPERATION_STATUSES_FAILED (constants failingStoreEnv)"
    by (simp add: failedStore_def failingStoreEnv_def demoEnv_def demoConstants_def)
  have failed: "OPERATION_STATUSES_FAILED (constants failingStoreEnv) = ''FAILED''"
    by (simp add: failingStoreEnv_def demoEnv_def demoConstants_def)
  have r1: "create failingStoreEnv demoContent JNull emptyHooks []
            = (fst (create failingStoreEnv demoContent JNull emptyHooks []),
               snd (create failingStoreEnv demoContent JNull emptyHooks []))"
    by simp
  have r2: "update failingStoreEnv demoUAL demoContent JNull []
            = (fst (update failingStoreEnv demoUAL demoContent JNull []),
               snd (update failingStoreEnv demoUAL demoContent JNull []))"
    by simp
  from failed_local_store_stops [OF r1 r2] failing_create_store_event failing_update_store_event st failed
  show ?thesis
    by metis
qed

text \<open>
  C8. The claim holds on the success path only. In the environment where the local store
  fails, the object create returns has the members \<open>UAL\<close>, \<open>assertionId\<close> and
  \<open>operation\<close>: the public assertion's root is under \<open>assertionId\<close> and there is no
  member \<open>publicAssertionId\<close>, which the documentation of create promises and the success
  path returns.
\<close>

theorem create_early_return_members:
  "map_sum id keysOf (fst (create failingStoreEnv demoContent JNull emptyHooks []))
     = Inr [''UAL'', ''assertionId'', ''operation'']
   \<and> map_sum id keysOf (fst (create demoEnv demoContent JNull emptyHooks []))
     = Inr [''UAL'', ''publicAssertionId'', ''operation'']"
  by (simp add: create_def content_eval)

subsection \<open>Plain content\<close>

lemma andThen_pure_Inr: "andThen (pure (Inr x)) f = f x"
  by (rule ext) (simp add: io_defs)

text \<open>
  C10. For a content object with neither a \<open>public\<close> nor a \<open>private\<close> key, create does
  what it does for \<open>{public: content}\<close>: the same outcome and the same events. The
  object-type validation, which is not among the sources, is taken not to tell the two
  objects apart.
\<close>

theorem create_wraps_plain_content:
  assumes "map_of kvs ''public'' = None"
    and "map_of kvs ''private'' = None"
    and "validateObjectType (validationService E) (JObj [(''public'', JObj kvs)])
         = validateObjectType (validationService E) (JObj kvs)"
  shows "create E (JObj kvs) options hooks tr = create E (JObj [(''public'', JObj kvs)]) options hooks tr"
  unfolding create_def
  by (simp add: assms andThen_pure_Inr)

theorem create_wraps_plain_content_witness:
  "map_of plainContent ''public'' = None
   \<and> map_of plainContent ''private'' = None
   \<and> validateObjectType (validationService demoEnv) (JObj [(''public'', JObj plainContent)])
       = validateObjectType (validationService demoEnv) (JObj plainContent)
   \<and> create demoEnv (JObj plainContent) JNull emptyHooks []
       = create demoEnv (JObj [(''public'', JObj plainContent)]) JNull emptyHooks []"
proof -
  have h1: "map_of plainContent ''public'' = None"
    by (simp add: plainContent_def)
  have h2: "map_of plainContent ''private'' = None"
    by (simp add: plainContent_def)
  have h3: "validateObjectType (validationService demoEnv) (JObj [(''public'', JObj plainContent)])
            = validateObjectType (validationService demoEnv) (JObj plainContent)"
    by (simp add: demoEnv_def demoValidationService_def)
  from h1 h2 h3 create_wraps_plain_content [OF h1 h2 h3]
  show ?thesis by blast
qed

subsection \<open>The link from the public to the private assertion\<close>










subsection \<open>The result of get\<close>





lemma map_filter_append: "List.map_filter f (xs @ ys) = List.map_filter f xs @ List.map_filter f ys"
  by (simp add: List.map_filter_def)






















end
